theory Spec2Isabelle
  imports Main "HOL-Library.Char_ord" "HOL-Library.List_Lexorder" "HOL-Library.AList"
begin

section \<open>Strings, paths and the host\<close>

text \<open>
  The suite driver \<^verbatim>\<open>scripts/ci_band_suite.py\<close> is embedded function by function.
  Python \<^verbatim>\<open>str\<close> is \<open>string\<close>, a \<^verbatim>\<open>Path\<close> is the string \<^verbatim>\<open>str(path)\<close> of an
  absolute, normalised POSIX path. The file system is a map with one entry for every
  path that exists, a regular file or a directory, so \<^verbatim>\<open>Path.exists\<close> is membership
  and \<^verbatim>\<open>mkdir\<close> adds the entries that are missing. The entry of a regular file holds
  its bytes; the entry of a directory is never read or written by a call that succeeds,
  and the calls into the standard library are taken to succeed (no permission, encoding
  or disk fault, no read of a directory). What the standard library and the operating
  system compute (the SHA-256 digest, the glob, the child process, the clock, the JSON
  printer) is a field of the record \<open>host\<close>, so every theorem holds for each of their
  behaviours.
  The child process is a function of its command, directory, environment and the files
  it finds: it is taken to return (the driver sets no timeout), with any return code,
  any output and any change to the files.
\<close>

type_synonym path = string

definition nl :: char where
  "nl = CHR 0x0A"

text \<open>\<^verbatim>\<open>cand in text\<close> on Python strings: \<open>cand\<close> starts at some position of \<open>text\<close>.\<close>

fun str_contains :: "string \<Rightarrow> string \<Rightarrow> bool" where
  "str_contains cand [] = (cand = [])"
| "str_contains cand (c # cs) = (take (length cand) (c # cs) = cand \<or> str_contains cand cs)"

text \<open>\<^verbatim>\<open>str(n)\<close> for the integers that reach an f-string.\<close>

definition digit_char :: "nat \<Rightarrow> char" where
  "digit_char d = char_of (48 + d)"

function str_nat :: "nat \<Rightarrow> string" where
  "str_nat n = (if n < 10 then [digit_char n] else str_nat (n div 10) @ [digit_char (n mod 10)])"
  by pat_completeness auto
termination
  by (relation "measure (\<lambda>n. n)") auto

declare str_nat.simps [simp del]

definition str_int :: "int \<Rightarrow> string" where
  "str_int i = (if i < 0 then CHR ''-'' # str_nat (nat (- i)) else str_nat (nat i))"

text \<open>\<^verbatim>\<open>"\n".join(lines)\<close>.\<close>

fun join_lines :: "string list \<Rightarrow> string" where
  "join_lines [] = []"
| "join_lines [l] = l"
| "join_lines (l # m # ls) = l @ [nl] @ join_lines (m # ls)"

text \<open>\<^verbatim>\<open>p / name\<close> for a name of one component.\<close>

definition joinpath :: "path \<Rightarrow> string \<Rightarrow> path" where
  "joinpath p name = (if p = ''/'' then p @ name else p @ ''/'' @ name)"

text \<open>\<^verbatim>\<open>Path.name\<close> and \<^verbatim>\<open>Path.stem\<close>: the last component, without its last suffix
  (a leading or a trailing dot is no suffix).\<close>

definition path_name :: "path \<Rightarrow> string" where
  "path_name p = rev (takeWhile (\<lambda>c. c \<noteq> CHR ''/'') (rev p))"

definition stem :: "path \<Rightarrow> string" where
  "stem p =
     (let name = path_name p;
          k = length (takeWhile (\<lambda>c. c \<noteq> CHR ''.'') (rev name))
      in if 0 < k \<and> Suc k < length name then take (length name - Suc k) name else name)"

text \<open>\<^verbatim>\<open>Path.parent\<close>: the path without its last component; the root is its own parent.\<close>

definition parent :: "path \<Rightarrow> path" where
  "parent p =
     (let q = rev (dropWhile (\<lambda>c. c \<noteq> CHR ''/'') (rev p))
      in if length q \<le> 1 then q else butlast q)"

text \<open>A path and its ancestors, the nearest first.\<close>

function lineage :: "path \<Rightarrow> path list" where
  "lineage p = (if length (parent p) < length p then p # lineage (parent p) else [p])"
  by pat_completeness auto
termination
  by (relation "measure length") auto

declare lineage.simps [simp del]

text \<open>Paths compare by their components, so \<^verbatim>\<open>sorted\<close> orders them by \<open>path_parts\<close>.\<close>

fun split_on :: "char \<Rightarrow> string \<Rightarrow> string list" where
  "split_on sep [] = [[]]"
| "split_on sep (c # cs) =
     (if c = sep then [] # split_on sep cs
      else (case split_on sep cs of [] \<Rightarrow> [[c]] | w # ws \<Rightarrow> (c # w) # ws))"

definition path_parts :: "path \<Rightarrow> string list" where
  "path_parts p = split_on (CHR ''/'') p"

definition sorted_paths :: "path list \<Rightarrow> path list" where
  "sorted_paths ps = sort_key path_parts ps"

section \<open>Data model\<close>

record report_entry =
  path :: string
  sha256 :: string

record BandResult =
  band :: string
  csv :: string
  rc :: int
  outdir :: string
  reports :: "(string \<times> report_entry) list"
  log_file :: string

record help_detect =
  input_flag :: "string option"
  outdir_flag :: "string option"

record summary =
  timestamp_utc :: string
  pattern :: string
  total :: nat
  ok :: nat
  failed :: nat
  bands :: "BandResult list"
  run_sost_help_detect :: help_detect

text \<open>The parsed command line: \<^verbatim>\<open>--pattern\<close> and \<^verbatim>\<open>--outdir\<close>.\<close>

record args =
  arg_pattern :: string
  arg_outdir :: string

type_synonym filesystem = "path \<rightharpoonup> string"

record host =
  executable :: string
  cwd :: path
  environ :: "string \<rightharpoonup> string"
  resolve :: "path \<Rightarrow> string \<Rightarrow> path"
  glob :: "path \<Rightarrow> string \<Rightarrow> filesystem \<Rightarrow> path list"
  subprocess_run ::
    "string list \<Rightarrow> path \<Rightarrow> (string \<rightharpoonup> string) \<Rightarrow> filesystem \<Rightarrow> int \<times> string \<times> filesystem"
  sha256_hexdigest :: "string \<Rightarrow> string"
  utcnow_isoformat :: string
  json_dumps :: "summary \<Rightarrow> string"

text \<open>
  \<open>cwd\<close> is \<^verbatim>\<open>Path(".").resolve()\<close>, \<open>resolve p s\<close> is \<^verbatim>\<open>(p / s).resolve()\<close> for
  a string of the command line, \<open>glob p pat fs\<close> is \<^verbatim>\<open>p.glob(pat)\<close> on the files
  \<open>fs\<close>, and \<open>subprocess_run cmd cwd env fs\<close> is the child process: its return code, its
  merged output as text, and the files it leaves.

  The world is the file system and the log of what the driver itself did, in order.
\<close>

datatype event =
    Mkdir path
  | Spawn "string list"
  | WriteText path string
  | Print string

record world =
  files :: filesystem
  events :: "event list"

datatype py_error = FileNotFoundError path

text \<open>
  \<^verbatim>\<open>p.mkdir(parents=True, exist_ok=True)\<close>: afterwards \<open>p\<close> and all its ancestors
  exist; what existed before is left as it was, and a directory that is created is an
  entry without bytes.
\<close>

definition mkdir :: "path \<Rightarrow> world \<Rightarrow> world" where
  "mkdir p w =
     w\<lparr>files := (\<lambda>q. if q \<in> set (lineage p) \<and> files w q = None then Some [] else files w q),
       events := events w @ [Mkdir p]\<rparr>"

definition write_text :: "path \<Rightarrow> string \<Rightarrow> world \<Rightarrow> world" where
  "write_text p s w = w\<lparr>files := (files w)(p \<mapsto> s), events := events w @ [WriteText p s]\<rparr>"

definition print :: "string \<Rightarrow> world \<Rightarrow> world" where
  "print s w = w\<lparr>events := events w @ [Print s]\<rparr>"

text \<open>\<^verbatim>\<open>Path.exists\<close>: true of a regular file and of a directory alike.\<close>

definition exists :: "world \<Rightarrow> path \<Rightarrow> bool" where
  "exists w p = (files w p \<noteq> None)"

section \<open>The suite driver\<close>

definition sha256_file :: "host \<Rightarrow> world \<Rightarrow> path \<Rightarrow> py_error + string" where
  "sha256_file H w p =
     (case files w p of
        None \<Rightarrow> Inl (FileNotFoundError p)
      | Some bytes \<Rightarrow> Inr (sha256_hexdigest H bytes))"

definition run_capture ::
  "host \<Rightarrow> string list \<Rightarrow> path \<Rightarrow> (string \<rightharpoonup> string) \<Rightarrow> world \<Rightarrow> (int \<times> string) \<times> world" where
  "run_capture H cmd dir env w =
     (case subprocess_run H cmd dir env (files w) of
        (returncode, out, fs) \<Rightarrow>
          ((returncode, out), w\<lparr>files := fs, events := events w @ [Spawn cmd]\<rparr>))"

definition read_help ::
  "host \<Rightarrow> path \<Rightarrow> path \<Rightarrow> (string \<rightharpoonup> string) \<Rightarrow> world \<Rightarrow> string \<times> world" where
  "read_help H script repo env w =
     (case run_capture H [executable H, script, ''--help''] repo env w of
        ((rc', out), w') \<Rightarrow> (if out \<noteq> [] then out else [], w'))"

definition input_candidates :: "string list" where
  "input_candidates = [''--input-csv'', ''--input_csv'', ''--input'', ''-i'']"

definition outdir_candidates :: "string list" where
  "outdir_candidates = [''--outdir'', ''--out-dir'', ''--output-dir'', ''-o'']"

text \<open>The loop \<^verbatim>\<open>for cand in ...: if cand in help_text: flag = cand; break\<close>.\<close>

fun first_match :: "string list \<Rightarrow> string \<Rightarrow> string option" where
  "first_match [] help_text = None"
| "first_match (cand # rest) help_text =
     (if str_contains cand help_text then Some cand else first_match rest help_text)"

definition pick_flags :: "string \<Rightarrow> string option \<times> string option" where
  "pick_flags help_text =
     (first_match input_candidates help_text, first_match outdir_candidates help_text)"

definition report_names :: "string list" where
  "report_names = [''dd_report.json'', ''ddr_report.json'', ''e_report.json'']"

text \<open>The inner loop over the report names; the dictionary keeps insertion order.\<close>

fun collect_reports ::
  "host \<Rightarrow> world \<Rightarrow> path \<Rightarrow> string list \<Rightarrow> (string \<times> report_entry) list
     \<Rightarrow> py_error + (string \<times> report_entry) list" where
  "collect_reports H w band_out [] acc = Inr acc"
| "collect_reports H w band_out (name # names) acc =
     (let p = joinpath band_out name in
      if exists w p then
        (case sha256_file H w p of
           Inl e \<Rightarrow> Inl e
         | Inr digest \<Rightarrow>
             collect_reports H w band_out names
               (AList.update name \<lparr>path = p, sha256 = digest\<rparr> acc))
      else collect_reports H w band_out names acc)"

text \<open>A flag is used when it is truthy: not \<^verbatim>\<open>None\<close> and not the empty string.\<close>

definition band_cmd ::
  "host \<Rightarrow> path \<Rightarrow> string option \<Rightarrow> string option \<Rightarrow> path \<Rightarrow> path \<Rightarrow> string list" where
  "band_cmd H run_sost in_flag out_flag csv_path band_out =
     [executable H, run_sost]
     @ (case in_flag of
          None \<Rightarrow> [csv_path]
        | Some f \<Rightarrow> if f \<noteq> [] then [f, csv_path] else [csv_path])
     @ (case out_flag of
          None \<Rightarrow> []
        | Some f \<Rightarrow> if f \<noteq> [] then [f, band_out] else [])"

definition failure_line :: "BandResult \<Rightarrow> string" where
  "failure_line r = band r @ '' rc='' @ str_int (rc r) @ '' csv='' @ csv r"

text \<open>One turn of the loop over the fixtures, up to the record it appends.\<close>

definition run_band ::
  "host \<Rightarrow> path \<Rightarrow> path \<Rightarrow> path \<Rightarrow> (string \<rightharpoonup> string) \<Rightarrow> string option \<Rightarrow> string option
     \<Rightarrow> path \<Rightarrow> world \<Rightarrow> py_error + BandResult \<times> world" where
  "run_band H repo out_root run_sost env in_flag out_flag csv_path w =
     (let band_name = stem csv_path;
          band_out = joinpath out_root (''sost_out_'' @ band_name);
          w1 = mkdir band_out w;
          cmd = band_cmd H run_sost in_flag out_flag csv_path band_out
      in case run_capture H cmd repo env w1 of
           ((code, log), w2) \<Rightarrow>
             (let logf = joinpath out_root (band_name @ ''.log'');
                  w3 = write_text logf log w2
              in case collect_reports H w3 band_out report_names [] of
                   Inl e \<Rightarrow> Inl e
                 | Inr reps \<Rightarrow>
                     Inr (\<lparr>band = band_name, csv = csv_path, rc = code, outdir = band_out,
                           reports = reps, log_file = logf\<rparr>, w3)))"

fun run_bands ::
  "host \<Rightarrow> path \<Rightarrow> path \<Rightarrow> path \<Rightarrow> (string \<rightharpoonup> string) \<Rightarrow> string option \<Rightarrow> string option
     \<Rightarrow> path list \<Rightarrow> BandResult list \<times> string list \<times> world
     \<Rightarrow> py_error + BandResult list \<times> string list \<times> world" where
  "run_bands H repo out_root run_sost env in_flag out_flag [] acc = Inr acc"
| "run_bands H repo out_root run_sost env in_flag out_flag (csv_path # rest) (results, failures, w) =
     (case run_band H repo out_root run_sost env in_flag out_flag csv_path w of
        Inl e \<Rightarrow> Inl e
      | Inr (r, w') \<Rightarrow>
          run_bands H repo out_root run_sost env in_flag out_flag rest
            (results @ [r],
             (if rc r \<noteq> 0 then failures @ [failure_line r] else failures),
             w'))"

definition make_summary ::
  "host \<Rightarrow> args \<Rightarrow> BandResult list \<Rightarrow> string option \<Rightarrow> string option \<Rightarrow> summary" where
  "make_summary H a results in_flag out_flag =
     \<lparr>timestamp_utc = utcnow_isoformat H,
      pattern = arg_pattern a,
      total = length results,
      ok = length (filter (\<lambda>r. rc r = 0) results),
      failed = length (filter (\<lambda>r. rc r \<noteq> 0) results),
      bands = results,
      run_sost_help_detect = \<lparr>input_flag = in_flag, outdir_flag = out_flag\<rparr>\<rparr>"

definition main :: "host \<Rightarrow> args \<Rightarrow> world \<Rightarrow> py_error + int \<times> world" where
  "main H a w0 =
     (let repo = cwd H;
          out_root = resolve H repo (arg_outdir a);
          w1 = mkdir out_root w0;
          run_sost = joinpath (joinpath repo ''scripts'') ''run_sost.py''
      in if \<not> exists w1 run_sost then
           Inr (2, print ''Missing scripts/run_sost.py''
                     (write_text (joinpath out_root ''band_suite_failures.txt'')
                        (''Missing scripts/run_sost.py'' @ [nl]) w1))
         else
           (let env = (environ H)(''PYTHONPATH'' \<mapsto>
                        repo @ (case environ H ''PYTHONPATH'' of
                                  None \<Rightarrow> []
                                | Some v \<Rightarrow> '':'' @ v))
            in case read_help H run_sost repo env w1 of
                 (help_text, w2) \<Rightarrow>
                   (case pick_flags help_text of
                      (in_flag, out_flag) \<Rightarrow>
                        (let csv_files = sorted_paths (glob H repo (arg_pattern a) (files w2))
                         in if csv_files = [] then
                              Inr (2, print (''No CSV matched pattern: '' @ arg_pattern a)
                                        (write_text (joinpath out_root ''band_suite_failures.txt'')
                                           (''No CSV matched pattern: '' @ arg_pattern a @ [nl]) w2))
                            else
                              (case run_bands H repo out_root run_sost env in_flag out_flag
                                      csv_files ([], [], w2) of
                                 Inl e \<Rightarrow> Inl e
                               | Inr (results, failures, w3) \<Rightarrow>
                                   (let s = make_summary H a results in_flag out_flag;
                                        w4 = write_text (joinpath out_root ''band_suite_summary.json'')
                                               (json_dumps H s) w3
                                    in if failures \<noteq> [] then
                                         Inr (1, print (join_lines failures)
                                                   (print ''Band suite FAILED:''
                                                      (write_text
                                                         (joinpath out_root ''band_suite_failures.txt'')
                                                         (join_lines failures @ [nl]) w4)))
                                       else
                                         Inr (0, print (''Band suite OK: '' @ str_nat (ok s)
                                                          @ ''/'' @ str_nat (total s)) w4)))))))"

section \<open>The smoke test\<close>

text \<open>
  \<^verbatim>\<open>tests/test_import_sost.py\<close> imports the library \<^verbatim>\<open>sost\<close>, which is outside this
  fragment: the import either raises or yields a module, a map from attribute names to
  values.
\<close>

datatype pyval = PyNone | PyBool bool | PyInt int | PyStr string | PyBytes string | PyObject

datatype test_outcome = Passed | ImportRaised | AssertionFailed nat

definition isinstance_str :: "pyval \<Rightarrow> bool" where
  "isinstance_str v = (case v of PyStr s \<Rightarrow> True | _ \<Rightarrow> False)"

definition truthy :: "pyval \<Rightarrow> bool" where
  "truthy v =
     (case v of
        PyNone \<Rightarrow> False
      | PyBool b \<Rightarrow> b
      | PyInt i \<Rightarrow> i \<noteq> 0
      | PyStr s \<Rightarrow> s \<noteq> []
      | PyBytes s \<Rightarrow> s \<noteq> []
      | PyObject \<Rightarrow> True)"

definition test_import_sost_and_version :: "(string \<rightharpoonup> pyval) option \<Rightarrow> test_outcome" where
  "test_import_sost_and_version imported =
     (case imported of
        None \<Rightarrow> ImportRaised
      | Some sost \<Rightarrow>
          (case sost ''__version__'' of
             None \<Rightarrow> AssertionFailed 1
           | Some v \<Rightarrow>
               if \<not> isinstance_str v then AssertionFailed 2
               else if \<not> truthy v then AssertionFailed 3
               else Passed))"

section \<open>Names for the values of a run\<close>

text \<open>
  The local values of \<open>main\<close>, as functions of the host, the command line and the
  world \<open>main\<close> starts in; \<open>suite_run\<close> is the loop over the fixtures exactly as \<open>main\<close>
  starts it, so its result holds the records, the failure lines and the world that
  \<open>main\<close> has when it aggregates.
\<close>

definition out_root :: "host \<Rightarrow> args \<Rightarrow> path" where
  "out_root H a = resolve H (cwd H) (arg_outdir a)"

definition run_sost_path :: "host \<Rightarrow> path" where
  "run_sost_path H = joinpath (joinpath (cwd H) ''scripts'') ''run_sost.py''"

definition failures_path :: "host \<Rightarrow> args \<Rightarrow> path" where
  "failures_path H a = joinpath (out_root H a) ''band_suite_failures.txt''"

definition summary_path :: "host \<Rightarrow> args \<Rightarrow> path" where
  "summary_path H a = joinpath (out_root H a) ''band_suite_summary.json''"

definition child_env :: "host \<Rightarrow> (string \<rightharpoonup> string)" where
  "child_env H =
     (environ H)(''PYTHONPATH'' \<mapsto>
        cwd H @ (case environ H ''PYTHONPATH'' of None \<Rightarrow> [] | Some v \<Rightarrow> '':'' @ v))"

definition tool_present :: "host \<Rightarrow> world \<Rightarrow> bool" where
  "tool_present H w = exists w (run_sost_path H)"

text \<open>What \<open>main\<close> tests: the tool's path exists once the output directory is made.\<close>

definition tool_seen :: "host \<Rightarrow> args \<Rightarrow> world \<Rightarrow> bool" where
  "tool_seen H a w = exists (mkdir (out_root H a) w) (run_sost_path H)"

definition help_cmd :: "host \<Rightarrow> string list" where
  "help_cmd H = [executable H, run_sost_path H, ''--help'']"

definition help_run :: "host \<Rightarrow> args \<Rightarrow> world \<Rightarrow> string \<times> world" where
  "help_run H a w =
     read_help H (run_sost_path H) (cwd H) (child_env H) (mkdir (out_root H a) w)"

definition detected :: "host \<Rightarrow> args \<Rightarrow> world \<Rightarrow> string option \<times> string option" where
  "detected H a w = pick_flags (fst (help_run H a w))"

definition csv_files :: "host \<Rightarrow> args \<Rightarrow> world \<Rightarrow> path list" where
  "csv_files H a w =
     sorted_paths (glob H (cwd H) (arg_pattern a) (files (snd (help_run H a w))))"

definition band_out_dir :: "host \<Rightarrow> args \<Rightarrow> path \<Rightarrow> path" where
  "band_out_dir H a csv_path = joinpath (out_root H a) (''sost_out_'' @ stem csv_path)"

definition band_log_file :: "host \<Rightarrow> args \<Rightarrow> path \<Rightarrow> path" where
  "band_log_file H a csv_path = joinpath (out_root H a) (stem csv_path @ ''.log'')"

definition fixture_cmd :: "host \<Rightarrow> args \<Rightarrow> world \<Rightarrow> path \<Rightarrow> string list" where
  "fixture_cmd H a w csv_path =
     band_cmd H (run_sost_path H) (fst (detected H a w)) (snd (detected H a w))
       csv_path (band_out_dir H a csv_path)"

definition suite_step :: "host \<Rightarrow> args \<Rightarrow> world \<Rightarrow> path \<Rightarrow> world \<Rightarrow> py_error + BandResult \<times> world" where
  "suite_step H a w csv_path v =
     run_band H (cwd H) (out_root H a) (run_sost_path H) (child_env H)
       (fst (detected H a w)) (snd (detected H a w)) csv_path v"

definition suite_run ::
  "host \<Rightarrow> args \<Rightarrow> world \<Rightarrow> py_error + BandResult list \<times> string list \<times> world" where
  "suite_run H a w =
     run_bands H (cwd H) (out_root H a) (run_sost_path H) (child_env H)
       (fst (detected H a w)) (snd (detected H a w)) (csv_files H a w)
       ([], [], snd (help_run H a w))"

text \<open>The commands a log spawned, and the files it wrote, in order.\<close>

fun spawned :: "event list \<Rightarrow> string list list" where
  "spawned [] = []"
| "spawned (Spawn cmd # es) = cmd # spawned es"
| "spawned (e # es) = spawned es"

fun written :: "event list \<Rightarrow> (path \<times> string) list" where
  "written [] = []"
| "written (WriteText p s # es) = (p, s) # written es"
| "written (e # es) = written es"

text \<open>What the driver did in a run that took the world from \<open>w\<close> to \<open>w'\<close>.\<close>

definition run_log :: "world \<Rightarrow> world \<Rightarrow> event list" where
  "run_log w w' = drop (length (events w)) (events w')"

section \<open>Concrete runs\<close>

definition demo_args :: args where
  "demo_args = \<lparr>arg_pattern = ''test_data/band_*.csv'', arg_outdir = ''_ci_out''\<rparr>"

definition demo_world :: world where
  "demo_world = \<lparr>files = [''/repo/scripts/run_sost.py'' \<mapsto> ''import sost''], events = []\<rparr>"

text \<open>A world in which an earlier, failed run has left its failure list.\<close>

definition stale_world :: world where
  "stale_world =
     \<lparr>files = [''/repo/scripts/run_sost.py'' \<mapsto> ''import sost'',
               ''/repo/_ci_out/band_suite_failures.txt'' \<mapsto> ''band_low rc=1 csv=/repo/test_data/band_low.csv''],
      events = []\<rparr>"

text \<open>A world without the tool.\<close>

definition bare_world :: world where
  "bare_world = \<lparr>files = Map.empty, events = []\<rparr>"

text \<open>
  A host with two fixtures: the tool fails on \<^verbatim>\<open>band_high\<close> with code 3 and succeeds
  on \<^verbatim>\<open>band_low\<close>, where it writes \<^verbatim>\<open>dd_report.json\<close>.
\<close>

definition demo_host :: host where
  "demo_host =
     \<lparr>executable = ''python'',
      cwd = ''/repo'',
      environ = Map.empty,
      resolve = (\<lambda>p s. joinpath p s),
      glob = (\<lambda>p pat fs. [''/repo/test_data/band_low.csv'', ''/repo/test_data/band_high.csv'']),
      subprocess_run = (\<lambda>cmd dir env fs.
         if ''--help'' \<in> set cmd then (0, ''usage: run_sost.py --input-csv CSV --outdir DIR'', fs)
         else if ''/repo/test_data/band_high.csv'' \<in> set cmd then (3, ''bad band'', fs)
         else (0, ''done'', fs(''/repo/_ci_out/sost_out_band_low/dd_report.json'' \<mapsto> ''{}''))),
      sha256_hexdigest = (\<lambda>bytes. ''sha256 of '' @ bytes),
      utcnow_isoformat = ''2024-05-01T12:00:00+00:00'',
      json_dumps = (\<lambda>s. timestamp_utc s @ '' '' @ pattern s @ '' '' @ str_nat (total s)
                          @ '' '' @ str_nat (ok s) @ '' '' @ str_nat (failed s))\<rparr>"

text \<open>The same host with one fixture, on which the tool succeeds.\<close>

definition passing_host :: host where
  "passing_host = demo_host\<lparr>glob := (\<lambda>p pat fs. [''/repo/test_data/band_low.csv''])\<rparr>"

text \<open>The same host when the pattern matches nothing.\<close>

definition empty_host :: host where
  "empty_host = demo_host\<lparr>glob := (\<lambda>p pat fs. [])\<rparr>"

text \<open>A host whose tool answers \<^verbatim>\<open>--help\<close> with code 1 and no output.\<close>

definition silent_host :: host where
  "silent_host =
     demo_host\<lparr>subprocess_run := (\<lambda>cmd dir env fs.
        if ''--help'' \<in> set cmd then (1, [], fs) else (0, ''done'', fs))\<rparr>"

text \<open>
  A host with three fixtures: the tool succeeds on \<^verbatim>\<open>band_1\<close>, fails on \<^verbatim>\<open>band_10\<close>
  with code 1 and on \<^verbatim>\<open>band_2\<close> with code 2.
\<close>

definition mixed_host :: host where
  "mixed_host =
     demo_host\<lparr>
       glob := (\<lambda>p pat fs. [''/repo/test_data/band_2.csv'', ''/repo/test_data/band_10.csv'',
                              ''/repo/test_data/band_1.csv'']),
       subprocess_run := (\<lambda>cmd dir env fs.
         if ''--help'' \<in> set cmd then (0, ''usage: run_sost.py --input-csv CSV --outdir DIR'', fs)
         else if ''/repo/test_data/band_10.csv'' \<in> set cmd then (1, ''bad band'', fs)
         else if ''/repo/test_data/band_2.csv'' \<in> set cmd then (2, ''worse band'', fs)
         else (0, ''done'', fs))\<rparr>"

text \<open>A command line that puts the output directory at the tool's path.\<close>

definition tool_dir_args :: args where
  "tool_dir_args = \<lparr>arg_pattern = ''test_data/band_*.csv'', arg_outdir = ''scripts/run_sost.py''\<rparr>"

section \<open>Substring containment\<close>

lemma take_is_prefix: "(take (length c) t = c) \<longleftrightarrow> (\<exists>post. t = c @ post)"
proof
  assume "take (length c) t = c"
  then have "t = c @ drop (length c) t" by (metis append_take_drop_id)
  then show "\<exists>post. t = c @ post" ..
next
  assume "\<exists>post. t = c @ post"
  then show "take (length c) t = c" by auto
qed

lemma str_contains_iff: "str_contains c t \<longleftrightarrow> (\<exists>pre post. t = pre @ c @ post)"
proof (induction t)
  case Nil
  show ?case by auto
next
  case (Cons x t)
  have "(\<exists>pre post. x # t = pre @ c @ post) \<longleftrightarrow>
        (\<exists>post. x # t = c @ post) \<or> (\<exists>pre post. t = pre @ c @ post)"
  proof
    assume "\<exists>pre post. x # t = pre @ c @ post"
    then obtain pre post where e: "x # t = pre @ c @ post" by blast
    show "(\<exists>post. x # t = c @ post) \<or> (\<exists>pre post. t = pre @ c @ post)"
    proof (cases pre)
      case Nil
      with e show ?thesis by auto
    next
      case (Cons y ys)
      with e have "t = ys @ c @ post" by simp
      then show ?thesis by blast
    qed
  next
    assume "(\<exists>post. x # t = c @ post) \<or> (\<exists>pre post. t = pre @ c @ post)"
    then show "\<exists>pre post. x # t = pre @ c @ post"
    proof
      assume "\<exists>post. x # t = c @ post"
      then obtain post where "x # t = [] @ c @ post" by auto
      then show ?thesis by blast
    next
      assume "\<exists>pre post. t = pre @ c @ post"
      then obtain pre post where "x # t = (x # pre) @ c @ post" by auto
      then show ?thesis by blast
    qed
  qed
  with Cons show ?case by (simp only: str_contains.simps take_is_prefix)
qed

section \<open>The report loop\<close>

lemma update_fresh: "k \<notin> fst ` set al \<Longrightarrow> AList.update k v al = al @ [(k, v)]"
  by (induction al) auto

lemma collect_reports_Inr:
  "distinct names \<Longrightarrow> fst ` set acc \<inter> set names = {} \<Longrightarrow>
   \<exists>reps. collect_reports H w d names acc = Inr (acc @ reps)
     \<and> map fst reps = filter (\<lambda>n. exists w (joinpath d n)) names
     \<and> (\<forall>(n, e) \<in> set reps. path e = joinpath d n \<and> sha256_file H w (joinpath d n) = Inr (sha256 e))"
proof (induction names arbitrary: acc)
  case Nil
  then show ?case by simp
next
  case (Cons n names)
  show ?case
  proof (cases "exists w (joinpath d n)")
    case False
    from Cons.prems have "distinct names" "fst ` set acc \<inter> set names = {}" by auto
    from Cons.IH[OF this] False show ?thesis by simp
  next
    case True
    then obtain bytes where b: "files w (joinpath d n) = Some bytes"
      by (auto simp: exists_def)
    let ?e = "\<lparr>path = joinpath d n, sha256 = sha256_hexdigest H bytes\<rparr>"
    from Cons.prems have fresh: "n \<notin> fst ` set acc" by auto
    have upd: "AList.update n ?e acc = acc @ [(n, ?e)]" by (rule update_fresh[OF fresh])
    from Cons.prems have "distinct names" "fst ` set (acc @ [(n, ?e)]) \<inter> set names = {}" by auto
    from Cons.IH[OF this] obtain reps where
      r: "collect_reports H w d names (acc @ [(n, ?e)]) = Inr ((acc @ [(n, ?e)]) @ reps)"
         "map fst reps = filter (\<lambda>n. exists w (joinpath d n)) names"
         "\<forall>(n, e) \<in> set reps. path e = joinpath d n \<and> sha256_file H w (joinpath d n) = Inr (sha256 e)"
      by blast
    have "collect_reports H w d (n # names) acc = Inr (acc @ ((n, ?e) # reps))"
      using True b upd r(1) by (simp add: sha256_file_def)
    moreover have "map fst ((n, ?e) # reps) = filter (\<lambda>n. exists w (joinpath d n)) (n # names)"
      using True r(2) by simp
    moreover have "\<forall>(m, e) \<in> set ((n, ?e) # reps).
        path e = joinpath d m \<and> sha256_file H w (joinpath d m) = Inr (sha256 e)"
      using r(3) b by (simp add: sha256_file_def)
    ultimately show ?thesis by blast
  qed
qed

lemma collect_reports_names:
  "\<exists>reps. collect_reports H w d report_names [] = Inr reps
     \<and> map fst reps = filter (\<lambda>n. exists w (joinpath d n)) report_names
     \<and> (\<forall>(n, e) \<in> set reps. path e = joinpath d n \<and> sha256_file H w (joinpath d n) = Inr (sha256 e))"
proof -
  have "distinct report_names" by (simp add: report_names_def)
  moreover have "fst ` set ([] :: (string \<times> report_entry) list) \<inter> set report_names = {}" by simp
  ultimately show ?thesis using collect_reports_Inr[of report_names "[]" H w d] by simp
qed

lemma collect_reports_files:
  "files u = files v \<Longrightarrow> collect_reports H u d names acc = collect_reports H v d names acc"
  by (induction names arbitrary: acc)
     (auto simp: exists_def sha256_file_def Let_def split: option.splits)

section \<open>Directories\<close>

lemma butlast_prefix: "\<exists>t. q = butlast q @ t"
proof (cases "q = []")
  case True
  then show ?thesis by simp
next
  case False
  then have "butlast q @ [last q] = q" by (rule append_butlast_last_id)
  then show ?thesis by metis
qed

lemma rev_dropWhile_prefix: "\<exists>s. xs = rev (dropWhile P (rev xs)) @ s"
proof -
  have "rev (takeWhile P (rev xs) @ dropWhile P (rev xs)) = xs" by simp
  then have "xs = rev (dropWhile P (rev xs)) @ rev (takeWhile P (rev xs))"
    by (simp only: rev_append)
  then show ?thesis ..
qed

lemma parent_prefix: "\<exists>s. p = parent p @ s"
proof -
  obtain q where q: "q = rev (dropWhile (\<lambda>c. c \<noteq> CHR ''/'') (rev p))" by simp
  from rev_dropWhile_prefix[of p "\<lambda>c. c \<noteq> CHR ''/''"] q obtain s where s: "p = q @ s" by auto
  from butlast_prefix[of q] obtain t where t: "q = butlast q @ t" by blast
  from s t have b: "p = butlast q @ (t @ s)" by (metis append_assoc)
  have "parent p = q \<or> parent p = butlast q"
    unfolding q by (simp add: parent_def Let_def)
  with s b show ?thesis by metis
qed

lemma lineage_prefix: "q \<in> set (lineage p) \<Longrightarrow> \<exists>s. p = q @ s"
proof (induction p rule: lineage.induct)
  case (1 p)
  show ?case
  proof (cases "length (parent p) < length p")
    case False
    with "1.prems" have "q = p" by (simp add: lineage.simps)
    then show ?thesis by simp
  next
    case True
    with "1.prems" have "q = p \<or> q \<in> set (lineage (parent p))"
      by (simp add: lineage.simps[of p])
    then show ?thesis
    proof
      assume "q = p" then show ?thesis by simp
    next
      assume "q \<in> set (lineage (parent p))"
      from "1.IH"[OF True this] obtain s where s: "parent p = q @ s" by blast
      from parent_prefix[of p] obtain t where "p = parent p @ t" by blast
      with s have "p = q @ (s @ t)" by simp
      then show ?thesis by blast
    qed
  qed
qed

lemma lineage_self: "p \<in> set (lineage p)"
  by (simp add: lineage.simps[of p])

lemma files_mkdir_other: "p \<notin> set (lineage d) \<Longrightarrow> files (mkdir d w) p = files w p"
  by (simp add: mkdir_def)

lemma files_mkdir_idem: "files (mkdir d (mkdir d w)) = files (mkdir d w)"
  by (auto simp: mkdir_def fun_eq_iff)

lemma exists_mkdir_iff: "exists (mkdir d w) p = (exists w p \<or> p \<in> set (lineage d))"
  by (auto simp: exists_def mkdir_def)

lemma events_mkdir [simp]: "events (mkdir d w) = events w @ [Mkdir d]"
  by (simp add: mkdir_def)

lemma joinpath_not_above: "x \<noteq> [] \<Longrightarrow> joinpath r x \<notin> set (lineage r)"
proof
  assume x: "x \<noteq> []" and "joinpath r x \<in> set (lineage r)"
  then obtain s where "r = joinpath r x @ s" using lineage_prefix by blast
  then have "length r = length (joinpath r x) + length s" by (metis length_append)
  with x show False by (simp add: joinpath_def split: if_splits)
qed

lemma joinpath_prefix_name: "joinpath r y = joinpath r x @ s \<Longrightarrow> y = x @ s"
  by (simp add: joinpath_def split: if_splits)

lemma failures_not_above_band:
  "joinpath r ''band_suite_failures.txt'' \<notin> set (lineage (joinpath r (''sost_out_'' @ b)))"
proof
  assume "joinpath r ''band_suite_failures.txt'' \<in> set (lineage (joinpath r (''sost_out_'' @ b)))"
  then obtain s where "joinpath r (''sost_out_'' @ b) = joinpath r ''band_suite_failures.txt'' @ s"
    using lineage_prefix by blast
  from joinpath_prefix_name[OF this] show False by simp
qed

section \<open>One fixture\<close>

lemma run_band_Inr:
  "\<exists>r w'. run_band H repo root script env fi fo c w = Inr (r, w')"
proof -
  let ?d = "joinpath root (''sost_out_'' @ stem c)"
  let ?cmd = "band_cmd H script fi fo c ?d"
  obtain code log fs where s: "subprocess_run H ?cmd repo env (files (mkdir ?d w)) = (code, log, fs)"
    by (cases "subprocess_run H ?cmd repo env (files (mkdir ?d w))") auto
  let ?w3 = "write_text (joinpath root (stem c @ ''.log'')) log
      ((mkdir ?d w)\<lparr>files := fs, events := events (mkdir ?d w) @ [Spawn ?cmd]\<rparr>)"
  obtain reps where "collect_reports H ?w3 ?d report_names [] = Inr reps"
    using collect_reports_names by blast
  then show ?thesis using s
    by (simp add: run_band_def run_capture_def Let_def)
qed

lemma run_band_result:
  assumes "run_band H repo root script env fi fo c w = Inr (r, w')"
  shows "band r = stem c" and "csv r = c"
    and "outdir r = joinpath root (''sost_out_'' @ stem c)"
    and "log_file r = joinpath root (stem c @ ''.log'')"
    and "rc r = fst (subprocess_run H (band_cmd H script fi fo c (outdir r)) repo env
                       (files (mkdir (outdir r) w)))"
    and "events w' = events w @ [Mkdir (outdir r), Spawn (band_cmd H script fi fo c (outdir r)),
           WriteText (log_file r) (fst (snd (subprocess_run H (band_cmd H script fi fo c (outdir r)) repo env
                       (files (mkdir (outdir r) w)))))]"
    and "files w' = (snd (snd (subprocess_run H (band_cmd H script fi fo c (outdir r)) repo env
                       (files (mkdir (outdir r) w)))))
           (log_file r \<mapsto> fst (snd (subprocess_run H (band_cmd H script fi fo c (outdir r)) repo env
                       (files (mkdir (outdir r) w)))))"
  using assms
  by (auto simp: run_band_def run_capture_def Let_def write_text_def
           split: prod.splits sum.splits)

lemma run_band_reports:
  assumes "run_band H repo root script env fi fo c w = Inr (r, w')"
  shows "map fst (reports r) = filter (\<lambda>n. exists w' (joinpath (outdir r) n)) report_names"
    and "\<forall>(n, e) \<in> set (reports r). path e = joinpath (outdir r) n
           \<and> sha256_file H w' (joinpath (outdir r) n) = Inr (sha256 e)"
proof -
  from assms obtain reps where
    c: "collect_reports H w' (joinpath root (''sost_out_'' @ stem c)) report_names [] = Inr reps"
    and r: "reports r = reps" "outdir r = joinpath root (''sost_out_'' @ stem c)"
    by (auto simp: run_band_def Let_def split: prod.splits sum.splits)
  from collect_reports_names[of H w' "joinpath root (''sost_out_'' @ stem c)"] c r
  show "map fst (reports r) = filter (\<lambda>n. exists w' (joinpath (outdir r) n)) report_names"
    and "\<forall>(n, e) \<in> set (reports r). path e = joinpath (outdir r) n
           \<and> sha256_file H w' (joinpath (outdir r) n) = Inr (sha256 e)"
    by auto
qed

lemma run_band_collect:
  assumes "run_band H repo root script env fi fo c w = Inr (r, w')"
  shows "collect_reports H w' (outdir r) report_names [] = Inr (reports r)"
  using assms by (auto simp: run_band_def Let_def split: prod.splits sum.splits)

text \<open>A turn of the loop reads the world only through its files, so it can be taken from a
  world in which the band's directory is already there.\<close>

lemma run_band_settled:
  assumes a: "run_band H repo root script env fi fo c w = Inr (r, w')"
  shows "\<exists>u u'. run_band H repo root script env fi fo c u = Inr (r, u')
           \<and> files u' = files w' \<and> files (mkdir (outdir r) u) = files u"
proof -
  obtain d where d: "d = joinpath root (''sost_out_'' @ stem c)" by simp
  have o: "outdir r = d" unfolding d by (rule run_band_result(3)[OF a])
  have i: "files (mkdir d (mkdir d w)) = files (mkdir d w)" by (rule files_mkdir_idem)
  obtain r2 u' where e: "run_band H repo root script env fi fo c (mkdir d w) = Inr (r2, u')"
    using run_band_Inr by blast
  have o2: "outdir r2 = d" unfolding d by (rule run_band_result(3)[OF e])
  have f: "files u' = files w'"
    using run_band_result(7)[OF e] run_band_result(7)[OF a] run_band_result(4)[OF e]
      run_band_result(4)[OF a] o o2 i by simp
  have 1: "band r2 = band r" using run_band_result(1)[OF e] run_band_result(1)[OF a] by simp
  have 2: "csv r2 = csv r" using run_band_result(2)[OF e] run_band_result(2)[OF a] by simp
  have 3: "rc r2 = rc r"
    using run_band_result(5)[OF e] run_band_result(5)[OF a] o o2 i by simp
  have 4: "outdir r2 = outdir r" using o o2 by simp
  have 5: "log_file r2 = log_file r" using run_band_result(4)[OF e] run_band_result(4)[OF a] by simp
  have "collect_reports H u' d report_names [] = collect_reports H w' d report_names []"
    by (rule collect_reports_files[OF f])
  with run_band_collect[OF e] run_band_collect[OF a] o o2
  have 6: "reports r2 = reports r" by simp
  from 1 2 3 4 5 6 have "r2 = r" by (cases r, cases r2) simp
  with e f i o show ?thesis by metis
qed

section \<open>The loop over the fixtures\<close>

lemma spawned_append: "spawned (xs @ ys) = spawned xs @ spawned ys"
  by (induction xs rule: spawned.induct) auto

lemma written_append: "written (xs @ ys) = written xs @ written ys"
  by (induction xs rule: written.induct) auto

lemma run_bands_Inr:
  "\<exists>new w'.
     run_bands H repo root script env fi fo cs (results, failures, w)
       = Inr (results @ new, failures @ map failure_line (filter (\<lambda>r. rc r \<noteq> 0) new), w')
     \<and> map csv new = cs
     \<and> (\<forall>r \<in> set new. \<exists>c v v'. c \<in> set cs \<and> run_band H repo root script env fi fo c v = Inr (r, v')
            \<and> files (mkdir (outdir r) v) = files v)
     \<and> (\<exists>log. events w' = events w @ log
           \<and> spawned log = map (\<lambda>c. band_cmd H script fi fo c (joinpath root (''sost_out_'' @ stem c))) cs
           \<and> map fst (written log) = map (\<lambda>c. joinpath root (stem c @ ''.log'')) cs)
     \<and> (\<forall>p. (\<forall>cmd d e fs. snd (snd (subprocess_run H cmd d e fs)) p = fs p)
             \<longrightarrow> p \<notin> (\<lambda>c. joinpath root (stem c @ ''.log'')) ` set cs
             \<longrightarrow> (\<forall>c \<in> set cs. p \<notin> set (lineage (joinpath root (''sost_out_'' @ stem c))))
             \<longrightarrow> files w' p = files w p)"
proof (induction cs arbitrary: results failures w)
  case Nil
  show ?case by simp
next
  case (Cons c cs)
  obtain r v where step: "run_band H repo root script env fi fo c w = Inr (r, v)"
    using run_band_Inr by blast
  note rb = run_band_result[OF step]
  let ?fl = "if rc r \<noteq> 0 then failures @ [failure_line r] else failures"
  from Cons.IH[of "results @ [r]" ?fl v] obtain new w' log where
    run: "run_bands H repo root script env fi fo cs (results @ [r], ?fl, v)
            = Inr ((results @ [r]) @ new, ?fl @ map failure_line (filter (\<lambda>r. rc r \<noteq> 0) new), w')"
    and csvs: "map csv new = cs"
    and steps: "\<forall>r \<in> set new. \<exists>c v v'. c \<in> set cs \<and> run_band H repo root script env fi fo c v = Inr (r, v')
            \<and> files (mkdir (outdir r) v) = files v"
    and ev: "events w' = events v @ log"
    and sp: "spawned log = map (\<lambda>c. band_cmd H script fi fo c (joinpath root (''sost_out_'' @ stem c))) cs"
    and wr: "map fst (written log) = map (\<lambda>c. joinpath root (stem c @ ''.log'')) cs"
    and fr: "\<forall>p. (\<forall>cmd d e fs. snd (snd (subprocess_run H cmd d e fs)) p = fs p)
             \<longrightarrow> p \<notin> (\<lambda>c. joinpath root (stem c @ ''.log'')) ` set cs
             \<longrightarrow> (\<forall>c \<in> set cs. p \<notin> set (lineage (joinpath root (''sost_out_'' @ stem c))))
             \<longrightarrow> files w' p = files v p"
    by blast
  let ?log = "[Mkdir (outdir r), Spawn (band_cmd H script fi fo c (outdir r)),
           WriteText (log_file r) (fst (snd (subprocess_run H (band_cmd H script fi fo c (outdir r)) repo env
              (files (mkdir (outdir r) w)))))] @ log"
  have 1: "run_bands H repo root script env fi fo (c # cs) (results, failures, w)
       = Inr (results @ (r # new), failures @ map failure_line (filter (\<lambda>r. rc r \<noteq> 0) (r # new)), w')"
    using step run by simp
  have 2: "map csv (r # new) = c # cs" using csvs rb(2) by simp
  have 3: "\<forall>x \<in> set (r # new). \<exists>c' v v'. c' \<in> set (c # cs)
              \<and> run_band H repo root script env fi fo c' v = Inr (x, v')
              \<and> files (mkdir (outdir x) v) = files v"
  proof
    fix x assume "x \<in> set (r # new)"
    then have "x = r \<or> x \<in> set new" by simp
    then show "\<exists>c' v v'. c' \<in> set (c # cs)
              \<and> run_band H repo root script env fi fo c' v = Inr (x, v')
              \<and> files (mkdir (outdir x) v) = files v"
    proof
      assume "x = r"
      with run_band_settled[OF step] show ?thesis by (metis list.set_intros(1))
    next
      assume "x \<in> set new"
      with steps show ?thesis by (metis list.set_intros(2))
    qed
  qed
  have 4: "events w' = events w @ ?log" using ev rb(6) by simp
  have 5: "spawned ?log = map (\<lambda>c. band_cmd H script fi fo c (joinpath root (''sost_out_'' @ stem c))) (c # cs)"
    using sp rb(3) by simp
  have 6: "map fst (written ?log) = map (\<lambda>c. joinpath root (stem c @ ''.log'')) (c # cs)"
    using wr rb(4) by simp
  have 7: "\<forall>p. (\<forall>cmd d e fs. snd (snd (subprocess_run H cmd d e fs)) p = fs p)
             \<longrightarrow> p \<notin> (\<lambda>c. joinpath root (stem c @ ''.log'')) ` set (c # cs)
             \<longrightarrow> (\<forall>c \<in> set (c # cs). p \<notin> set (lineage (joinpath root (''sost_out_'' @ stem c))))
             \<longrightarrow> files w' p = files w p"
  proof (intro allI impI)
    fix p
    assume a: "\<forall>cmd d e fs. snd (snd (subprocess_run H cmd d e fs)) p = fs p"
      and b: "p \<notin> (\<lambda>c. joinpath root (stem c @ ''.log'')) ` set (c # cs)"
      and l: "\<forall>c \<in> set (c # cs). p \<notin> set (lineage (joinpath root (''sost_out_'' @ stem c)))"
    from b have "p \<notin> (\<lambda>c. joinpath root (stem c @ ''.log'')) ` set cs" by auto
    moreover from l have "\<forall>c \<in> set cs. p \<notin> set (lineage (joinpath root (''sost_out_'' @ stem c)))"
      by simp
    ultimately have "files w' p = files v p" using fr a by blast
    moreover from b have "p \<noteq> log_file r" using rb(4) by auto
    moreover from l have "p \<notin> set (lineage (outdir r))" using rb(3) by simp
    then have "files (mkdir (outdir r) w) p = files w p" by (rule files_mkdir_other)
    ultimately show "files w' p = files w p" using rb(7) a by simp
  qed
  from 4 5 6 have L: "\<exists>log. events w' = events w @ log
           \<and> spawned log = map (\<lambda>c. band_cmd H script fi fo c (joinpath root (''sost_out_'' @ stem c))) (c # cs)
           \<and> map fst (written log) = map (\<lambda>c. joinpath root (stem c @ ''.log'')) (c # cs)"
    by (intro exI[of _ ?log] conjI)
  show ?case
    by (intro exI[of _ "r # new"] exI[of _ w'] conjI) (rule 1 2 3 L 7)+
qed

section \<open>The phases of a run\<close>

lemma main_missing:
  assumes "\<not> tool_seen H a w"
  shows "main H a w = Inr (2, print ''Missing scripts/run_sost.py''
                     (write_text (failures_path H a)
                        (''Missing scripts/run_sost.py'' @ [nl]) (mkdir (out_root H a) w)))"
  using assms
  by (simp add: main_def tool_seen_def run_sost_path_def failures_path_def out_root_def Let_def)

lemma main_no_csv:
  assumes "tool_seen H a w" and "csv_files H a w = []"
  shows "main H a w = Inr (2, print (''No CSV matched pattern: '' @ arg_pattern a)
                              (write_text (failures_path H a)
                                 (''No CSV matched pattern: '' @ arg_pattern a @ [nl])
                                 (snd (help_run H a w))))"
  using assms
  by (simp add: main_def tool_seen_def run_sost_path_def failures_path_def out_root_def
        csv_files_def help_run_def child_env_def Let_def case_prod_beta)

lemma main_suite:
  assumes "tool_seen H a w" and "csv_files H a w \<noteq> []"
    and "suite_run H a w = Inr (results, failures, w3)"
  shows "main H a w =
     (let s = make_summary H a results (fst (detected H a w)) (snd (detected H a w));
          w4 = write_text (summary_path H a) (json_dumps H s) w3
      in if failures \<noteq> [] then
           Inr (1, print (join_lines failures)
                     (print ''Band suite FAILED:''
                        (write_text (failures_path H a) (join_lines failures @ [nl]) w4)))
         else
           Inr (0, print (''Band suite OK: '' @ str_nat (ok s) @ ''/'' @ str_nat (total s)) w4))"
  using assms
  by (simp add: main_def tool_seen_def run_sost_path_def failures_path_def summary_path_def
        out_root_def csv_files_def help_run_def child_env_def suite_run_def detected_def
        Let_def case_prod_beta)


lemma sorted_paths_length [simp]: "length (sorted_paths ps) = length ps"
  by (simp add: sorted_paths_def)

lemma sorted_paths_Nil [simp]: "(sorted_paths ps = []) = (ps = [])"
  by (metis length_0_conv sorted_paths_length)

lemma help_run_eq:
  "help_run H a w =
     (fst (snd (subprocess_run H (help_cmd H) (cwd H) (child_env H) (files (mkdir (out_root H a) w)))),
      \<lparr>files = snd (snd (subprocess_run H (help_cmd H) (cwd H) (child_env H)
                          (files (mkdir (out_root H a) w)))),
       events = events w @ [Mkdir (out_root H a), Spawn (help_cmd H)]\<rparr>)"
  by (simp add: help_run_def read_help_def run_capture_def help_cmd_def case_prod_beta)

lemma joinpath_inj [simp]: "(joinpath p x = joinpath p y) = (x = y)"
  by (simp add: joinpath_def)

lemma log_not_failures: "x @ ''.log'' \<noteq> ''band_suite_failures.txt''"
proof
  assume "x @ ''.log'' = ''band_suite_failures.txt''"
  then have "last (x @ ''.log'') = last ''band_suite_failures.txt''" by simp
  then show False by simp
qed

lemma log_not_summary: "x @ ''.log'' \<noteq> ''band_suite_summary.json''"
proof
  assume "x @ ''.log'' = ''band_suite_summary.json''"
  then have "last (x @ ''.log'') = last ''band_suite_summary.json''" by simp
  then show False by simp
qed

lemma summary_not_failures [simp]: "summary_path H a \<noteq> failures_path H a"
  by (simp add: summary_path_def failures_path_def)

lemma failures_not_log: "failures_path H a \<notin> band_log_file H a ` set cs"
  using log_not_failures by (auto simp: failures_path_def band_log_file_def)

lemma summary_not_log: "summary_path H a \<notin> band_log_file H a ` set cs"
  using log_not_summary by (auto simp: summary_path_def band_log_file_def)

lemma failures_not_above: "failures_path H a \<notin> set (lineage (out_root H a))"
  unfolding failures_path_def by (rule joinpath_not_above) simp

lemma failures_not_above_bands: "failures_path H a \<notin> set (lineage (band_out_dir H a c))"
  unfolding failures_path_def band_out_dir_def by (rule failures_not_above_band)

lemma tool_seen_iff:
  "tool_seen H a w = (tool_present H w \<or> run_sost_path H \<in> set (lineage (out_root H a)))"
  by (simp add: tool_seen_def tool_present_def exists_mkdir_iff)

lemma tool_present_seen: "tool_present H w \<Longrightarrow> tool_seen H a w"
  by (simp add: tool_seen_iff)

lemma suite_run_facts:
  "\<exists>results failures w3 log.
     suite_run H a w = Inr (results, failures, w3)
     \<and> map csv results = csv_files H a w
     \<and> failures = map failure_line (filter (\<lambda>r. rc r \<noteq> 0) results)
     \<and> (\<forall>r \<in> set results. \<exists>c v v'. c \<in> set (csv_files H a w) \<and> suite_step H a w c v = Inr (r, v')
            \<and> files (mkdir (outdir r) v) = files v)
     \<and> events w3 = events w @ [Mkdir (out_root H a), Spawn (help_cmd H)] @ log
     \<and> spawned log = map (fixture_cmd H a w) (csv_files H a w)
     \<and> map fst (written log) = map (band_log_file H a) (csv_files H a w)
     \<and> (\<forall>p. (\<forall>cmd d e fs. snd (snd (subprocess_run H cmd d e fs)) p = fs p)
             \<longrightarrow> p \<notin> band_log_file H a ` set (csv_files H a w)
             \<longrightarrow> p \<notin> set (lineage (out_root H a))
             \<longrightarrow> (\<forall>c \<in> set (csv_files H a w). p \<notin> set (lineage (band_out_dir H a c)))
             \<longrightarrow> files w3 p = files w p)"
proof -
  from run_bands_Inr[of H "cwd H" "out_root H a" "run_sost_path H" "child_env H"
      "fst (detected H a w)" "snd (detected H a w)" "csv_files H a w" "[]" "[]" "snd (help_run H a w)"]
  obtain new w' log where
    1: "suite_run H a w = Inr (new, map failure_line (filter (\<lambda>r. rc r \<noteq> 0) new), w')"
    and 2: "map csv new = csv_files H a w"
    and 3: "\<forall>r \<in> set new. \<exists>c v v'. c \<in> set (csv_files H a w) \<and> suite_step H a w c v = Inr (r, v')
            \<and> files (mkdir (outdir r) v) = files v"
    and 4: "events w' = events (snd (help_run H a w)) @ log"
    and 5: "spawned log = map (fixture_cmd H a w) (csv_files H a w)"
    and 6: "map fst (written log) = map (band_log_file H a) (csv_files H a w)"
    and 7: "\<forall>p. (\<forall>cmd d e fs. snd (snd (subprocess_run H cmd d e fs)) p = fs p)
             \<longrightarrow> p \<notin> band_log_file H a ` set (csv_files H a w)
             \<longrightarrow> (\<forall>c \<in> set (csv_files H a w). p \<notin> set (lineage (band_out_dir H a c)))
             \<longrightarrow> files w' p = files (snd (help_run H a w)) p"
    unfolding suite_run_def suite_step_def fixture_cmd_def band_out_dir_def band_log_file_def
    by auto
  have e4: "events w' = events w @ [Mkdir (out_root H a), Spawn (help_cmd H)] @ log"
    using 4 by (simp add: help_run_eq)
  have f7: "\<forall>p. (\<forall>cmd d e fs. snd (snd (subprocess_run H cmd d e fs)) p = fs p)
             \<longrightarrow> p \<notin> band_log_file H a ` set (csv_files H a w)
             \<longrightarrow> p \<notin> set (lineage (out_root H a))
             \<longrightarrow> (\<forall>c \<in> set (csv_files H a w). p \<notin> set (lineage (band_out_dir H a c)))
             \<longrightarrow> files w' p = files w p"
  proof (intro allI impI)
    fix p
    assume a: "\<forall>cmd d e fs. snd (snd (subprocess_run H cmd d e fs)) p = fs p"
      and b: "p \<notin> band_log_file H a ` set (csv_files H a w)"
      and c: "p \<notin> set (lineage (out_root H a))"
      and d: "\<forall>c \<in> set (csv_files H a w). p \<notin> set (lineage (band_out_dir H a c))"
    from 7 a b d have "files w' p = files (snd (help_run H a w)) p" by blast
    also have "\<dots> = files (mkdir (out_root H a) w) p" using a by (simp add: help_run_eq)
    also have "\<dots> = files w p" by (rule files_mkdir_other[OF c])
    finally show "files w' p = files w p" .
  qed
  show ?thesis
    by (intro exI[of _ new] exI[of _ "map failure_line (filter (\<lambda>r. rc r \<noteq> 0) new)"]
          exI[of _ w'] exI[of _ log] conjI) (rule 1 2 3 e4 5 6 f7 refl)+
qed

lemma main_total: "\<exists>code w'. main H a w = Inr (code, w')"
proof (cases "tool_seen H a w")
  case False
  then show ?thesis by (simp add: main_missing)
next
  case True
  show ?thesis
  proof (cases "csv_files H a w = []")
    case True
    with \<open>tool_seen H a w\<close> show ?thesis by (simp add: main_no_csv)
  next
    case False
    obtain results failures w3 where "suite_run H a w = Inr (results, failures, w3)"
      using suite_run_facts by blast
    from main_suite[OF \<open>tool_seen H a w\<close> False this] show ?thesis
      by (simp add: Let_def)
  qed
qed

lemma main_code_2:
  assumes "main H a w = Inr (code, w')"
  shows "(code = 2) = (\<not> tool_seen H a w \<or> csv_files H a w = [])"
proof (cases "tool_seen H a w")
  case False
  with assms show ?thesis by (simp add: main_missing)
next
  case True
  show ?thesis
  proof (cases "csv_files H a w = []")
    case True
    with \<open>tool_seen H a w\<close> assms show ?thesis by (simp add: main_no_csv)
  next
    case False
    obtain results failures w3 where "suite_run H a w = Inr (results, failures, w3)"
      using suite_run_facts by blast
    from main_suite[OF \<open>tool_seen H a w\<close> False this] assms True False show ?thesis
      by (auto simp: Let_def split: if_splits)
  qed
qed

lemma run_log_append [simp]: "events w' = events w @ l \<Longrightarrow> run_log w w' = l"
  by (simp add: run_log_def)

lemma written_fst_filter:
  "p \<notin> fst ` set (written l) \<Longrightarrow> filter (\<lambda>x. fst x = p) (written l) = []"
  by (induction l rule: written.induct) auto

text \<open>The run, phase by phase: what main returns, logs and leaves, when it aggregates.\<close>

lemma main_aggregates:
  assumes tp: "tool_seen H a w" and ne: "csv_files H a w \<noteq> []"
  shows "\<exists>results failures w3 log w'.
     suite_run H a w = Inr (results, failures, w3)
     \<and> map csv results = csv_files H a w
     \<and> failures = map failure_line (filter (\<lambda>r. rc r \<noteq> 0) results)
     \<and> main H a w = Inr (if failures \<noteq> [] then 1 else 0, w')
     \<and> spawned log = help_cmd H # map (fixture_cmd H a w) (csv_files H a w)
     \<and> summary_path H a \<notin> fst ` set (written log)
     \<and> failures_path H a \<notin> fst ` set (written log)
     \<and> run_log w w' = log
          @ [WriteText (summary_path H a)
               (json_dumps H (make_summary H a results (fst (detected H a w)) (snd (detected H a w))))]
          @ (if failures \<noteq> [] then
               [WriteText (failures_path H a) (join_lines failures @ [nl]),
                Print ''Band suite FAILED:'', Print (join_lines failures)]
             else [Print (''Band suite OK: '' @ str_nat (length (filter (\<lambda>r. rc r = 0) results))
                           @ ''/'' @ str_nat (length results))])
     \<and> files w' (summary_path H a) =
          Some (json_dumps H (make_summary H a results (fst (detected H a w)) (snd (detected H a w))))
     \<and> files w' (failures_path H a) =
          (if failures \<noteq> [] then Some (join_lines failures @ [nl]) else files w3 (failures_path H a))
     \<and> ((\<forall>cmd d e fs. snd (snd (subprocess_run H cmd d e fs)) (failures_path H a) = fs (failures_path H a))
          \<longrightarrow> files w3 (failures_path H a) = files w (failures_path H a))"
proof -
  from suite_run_facts[of H a w] obtain results failures w3 log where
    s: "suite_run H a w = Inr (results, failures, w3)"
    and c: "map csv results = csv_files H a w"
    and f: "failures = map failure_line (filter (\<lambda>r. rc r \<noteq> 0) results)"
    and e: "events w3 = events w @ [Mkdir (out_root H a), Spawn (help_cmd H)] @ log"
    and sp: "spawned log = map (fixture_cmd H a w) (csv_files H a w)"
    and wr: "map fst (written log) = map (band_log_file H a) (csv_files H a w)"
    and fr: "\<forall>p. (\<forall>cmd d e fs. snd (snd (subprocess_run H cmd d e fs)) p = fs p)
             \<longrightarrow> p \<notin> band_log_file H a ` set (csv_files H a w)
             \<longrightarrow> p \<notin> set (lineage (out_root H a))
             \<longrightarrow> (\<forall>c \<in> set (csv_files H a w). p \<notin> set (lineage (band_out_dir H a c)))
             \<longrightarrow> files w3 p = files w p"
    by blast
  let ?S = "make_summary H a results (fst (detected H a w)) (snd (detected H a w))"
  let ?log = "[Mkdir (out_root H a), Spawn (help_cmd H)] @ log"
  let ?w4 = "write_text (summary_path H a) (json_dumps H ?S) w3"
  let ?w' = "if failures \<noteq> [] then
               print (join_lines failures)
                 (print ''Band suite FAILED:''
                    (write_text (failures_path H a) (join_lines failures @ [nl]) ?w4))
             else print (''Band suite OK: '' @ str_nat (ok ?S) @ ''/'' @ str_nat (total ?S)) ?w4"
  have m: "main H a w = Inr (if failures \<noteq> [] then 1 else 0, ?w')"
    using main_suite[OF tp ne s] by (simp add: Let_def)
  have wset: "fst ` set (written log) = band_log_file H a ` set (csv_files H a w)"
    using wr by (metis list.set_map)
  have w1: "summary_path H a \<notin> fst ` set (written ?log)"
    using wset summary_not_log by simp
  have w2: "failures_path H a \<notin> fst ` set (written ?log)"
    using wset failures_not_log by simp
  have s2: "spawned ?log = help_cmd H # map (fixture_cmd H a w) (csv_files H a w)"
    using sp by simp
  have ev: "events ?w' = events w @ ?log
          @ [WriteText (summary_path H a) (json_dumps H ?S)]
          @ (if failures \<noteq> [] then
               [WriteText (failures_path H a) (join_lines failures @ [nl]),
                Print ''Band suite FAILED:'', Print (join_lines failures)]
             else [Print (''Band suite OK: '' @ str_nat (length (filter (\<lambda>r. rc r = 0) results))
                           @ ''/'' @ str_nat (length results))])"
    using e by (simp add: print_def write_text_def make_summary_def)
  have rl: "run_log w ?w' = ?log
          @ [WriteText (summary_path H a) (json_dumps H ?S)]
          @ (if failures \<noteq> [] then
               [WriteText (failures_path H a) (join_lines failures @ [nl]),
                Print ''Band suite FAILED:'', Print (join_lines failures)]
             else [Print (''Band suite OK: '' @ str_nat (length (filter (\<lambda>r. rc r = 0) results))
                           @ ''/'' @ str_nat (length results))])"
    by (rule run_log_append[OF ev])
  have fs: "files ?w' (summary_path H a) = Some (json_dumps H ?S)"
    by (simp add: print_def write_text_def)
  have ff: "files ?w' (failures_path H a) =
          (if failures \<noteq> [] then Some (join_lines failures @ [nl]) else files w3 (failures_path H a))"
    using summary_not_failures[of H a] not_sym[OF summary_not_failures[of H a]]
    by (simp add: print_def write_text_def)
  have frame: "(\<forall>cmd d e fs. snd (snd (subprocess_run H cmd d e fs)) (failures_path H a) = fs (failures_path H a))
          \<longrightarrow> files w3 (failures_path H a) = files w (failures_path H a)"
    using fr failures_not_log failures_not_above failures_not_above_bands by blast
  show ?thesis
    by (intro exI[of _ results] exI[of _ failures] exI[of _ w3] exI[of _ ?log] exI[of _ ?w'] conjI)
       (rule s c f m s2 w1 w2 rl fs ff frame)+
qed

lemma main_spawns:
  assumes "tool_seen H a w"
  shows "\<exists>code w'. main H a w = Inr (code, w')
           \<and> spawned (run_log w w') = help_cmd H # map (fixture_cmd H a w) (csv_files H a w)"
proof (cases "csv_files H a w = []")
  case True
  have "events (print (''No CSV matched pattern: '' @ arg_pattern a)
                  (write_text (failures_path H a)
                     (''No CSV matched pattern: '' @ arg_pattern a @ [nl]) (snd (help_run H a w))))
        = events w @ [Mkdir (out_root H a), Spawn (help_cmd H),
             WriteText (failures_path H a) (''No CSV matched pattern: '' @ arg_pattern a @ [nl]),
             Print (''No CSV matched pattern: '' @ arg_pattern a)]"
    by (simp add: help_run_eq print_def write_text_def)
  from run_log_append[OF this] main_no_csv[OF assms True] True show ?thesis by simp
next
  case False
  from main_aggregates[OF assms False] obtain results failures w3 log w' where
    m: "main H a w = Inr (if failures \<noteq> [] then 1 else 0, w')"
    and s: "spawned log = help_cmd H # map (fixture_cmd H a w) (csv_files H a w)"
    and r: "run_log w w' = log
          @ [WriteText (summary_path H a)
               (json_dumps H (make_summary H a results (fst (detected H a w)) (snd (detected H a w))))]
          @ (if failures \<noteq> [] then
               [WriteText (failures_path H a) (join_lines failures @ [nl]),
                Print ''Band suite FAILED:'', Print (join_lines failures)]
             else [Print (''Band suite OK: '' @ str_nat (length (filter (\<lambda>r. rc r = 0) results))
                           @ ''/'' @ str_nat (length results))])"
    by blast
  have "spawned (run_log w w') = help_cmd H # map (fixture_cmd H a w) (csv_files H a w)"
    using s r by (simp add: spawned_append)
  with m show ?thesis by blast
qed

lemma suite_rc:
  assumes "suite_run H a w = Inr (results, failures, w3)" and "r \<in> set results"
  shows "\<exists>v v'. suite_step H a w (csv r) v = Inr (r, v')
           \<and> outdir r = band_out_dir H a (csv r)
           \<and> log_file r = band_log_file H a (csv r)
           \<and> rc r = fst (subprocess_run H (fixture_cmd H a w (csv r)) (cwd H) (child_env H) (files v))
           \<and> files v' = (snd (snd (subprocess_run H (fixture_cmd H a w (csv r)) (cwd H) (child_env H) (files v))))
                (log_file r \<mapsto> fst (snd (subprocess_run H (fixture_cmd H a w (csv r)) (cwd H) (child_env H) (files v))))"
proof -
  from suite_run_facts[of H a w] assms obtain c and v v' :: world
    where e: "suite_step H a w c v = Inr (r, v')" and i: "files (mkdir (outdir r) v) = files v"
    by auto
  note rb = run_band_result[OF e[unfolded suite_step_def]]
  have o: "outdir r = band_out_dir H a (csv r)"
    using rb(2) rb(3) by (simp add: band_out_dir_def)
  have l: "log_file r = band_log_file H a (csv r)"
    using rb(2) rb(4) by (simp add: band_log_file_def)
  have k: "band_cmd H (run_sost_path H) (fst (detected H a w)) (snd (detected H a w)) c (outdir r)
             = fixture_cmd H a w (csv r)"
    using rb(2) o by (simp add: fixture_cmd_def)
  have 1: "suite_step H a w (csv r) v = Inr (r, v')" using e rb(2) by simp
  have 2: "rc r = fst (subprocess_run H (fixture_cmd H a w (csv r)) (cwd H) (child_env H) (files v))"
    using rb(5) k i by simp
  have 3: "files v' = (snd (snd (subprocess_run H (fixture_cmd H a w (csv r)) (cwd H) (child_env H) (files v))))
                (log_file r \<mapsto> fst (snd (subprocess_run H (fixture_cmd H a w (csv r)) (cwd H) (child_env H) (files v))))"
    using rb(7) k i by simp
  show ?thesis
    by (intro exI[of _ v] exI[of _ v'] conjI) (rule 1 o l 2 3)+
qed

lemma suite_band:
  assumes "suite_run H a w = Inr (results, failures, w3)" and "r \<in> set results"
  shows "band r = stem (csv r)"
proof -
  from suite_run_facts[of H a w] assms obtain c and v v' :: world
    where e: "suite_step H a w c v = Inr (r, v')"
    by auto
  note rb = run_band_result[OF e[unfolded suite_step_def]]
  from rb(1) rb(2) show ?thesis by simp
qed

lemma main_missing_run:
  assumes "\<not> tool_seen H a w"
  shows "\<exists>w'. main H a w = Inr (2, w')
     \<and> run_log w w' = [Mkdir (out_root H a),
          WriteText (failures_path H a) (''Missing scripts/run_sost.py'' @ [nl]),
          Print ''Missing scripts/run_sost.py'']
     \<and> files w' = (files (mkdir (out_root H a) w))
          (failures_path H a \<mapsto> ''Missing scripts/run_sost.py'' @ [nl])"
proof -
  let ?w' = "print ''Missing scripts/run_sost.py''
                     (write_text (failures_path H a)
                        (''Missing scripts/run_sost.py'' @ [nl]) (mkdir (out_root H a) w))"
  have e: "events ?w' = events w @ [Mkdir (out_root H a),
          WriteText (failures_path H a) (''Missing scripts/run_sost.py'' @ [nl]),
          Print ''Missing scripts/run_sost.py'']"
    by (simp add: print_def write_text_def)
  have f: "files ?w' = (files (mkdir (out_root H a) w))
          (failures_path H a \<mapsto> ''Missing scripts/run_sost.py'' @ [nl])"
    by (simp add: print_def write_text_def)
  show ?thesis
    by (intro exI[of _ ?w'] conjI) (rule main_missing[OF assms] run_log_append[OF e] f)+
qed

lemma main_no_csv_run:
  assumes "tool_seen H a w" and "csv_files H a w = []"
  shows "\<exists>w'. main H a w = Inr (2, w')
     \<and> run_log w w' = [Mkdir (out_root H a), Spawn (help_cmd H),
          WriteText (failures_path H a) (''No CSV matched pattern: '' @ arg_pattern a @ [nl]),
          Print (''No CSV matched pattern: '' @ arg_pattern a)]
     \<and> files w' = (snd (snd (subprocess_run H (help_cmd H) (cwd H) (child_env H)
                         (files (mkdir (out_root H a) w)))))
          (failures_path H a \<mapsto> ''No CSV matched pattern: '' @ arg_pattern a @ [nl])"
proof -
  let ?w' = "print (''No CSV matched pattern: '' @ arg_pattern a)
                              (write_text (failures_path H a)
                                 (''No CSV matched pattern: '' @ arg_pattern a @ [nl])
                                 (snd (help_run H a w)))"
  have e: "events ?w' = events w @ [Mkdir (out_root H a), Spawn (help_cmd H),
          WriteText (failures_path H a) (''No CSV matched pattern: '' @ arg_pattern a @ [nl]),
          Print (''No CSV matched pattern: '' @ arg_pattern a)]"
    by (simp add: print_def write_text_def help_run_eq)
  have f: "files ?w' = (snd (snd (subprocess_run H (help_cmd H) (cwd H) (child_env H)
                         (files (mkdir (out_root H a) w)))))
          (failures_path H a \<mapsto> ''No CSV matched pattern: '' @ arg_pattern a @ [nl])"
    by (simp add: print_def write_text_def help_run_eq)
  show ?thesis
    by (intro exI[of _ ?w'] conjI) (rule main_no_csv[OF assms] run_log_append[OF e] f)+
qed

lemma artifact_writes:
  "\<exists>code w'. main H a w = Inr (code, w')
     \<and> (code = 0 \<or> code = 1 \<or> code = 2)
     \<and> (code = 0 \<longrightarrow> failures_path H a \<notin> fst ` set (written (run_log w w')))
     \<and> (code \<noteq> 0 \<longrightarrow>
           (\<exists>s. filter (\<lambda>x. fst x = failures_path H a) (written (run_log w w')) = [(failures_path H a, s)]
              \<and> files w' (failures_path H a) = Some s))
     \<and> (code \<noteq> 2 \<longrightarrow>
           (\<exists>s. filter (\<lambda>x. fst x = summary_path H a) (written (run_log w w')) = [(summary_path H a, s)]
              \<and> files w' (summary_path H a) = Some s))
     \<and> (code = 2 \<longrightarrow> summary_path H a \<notin> fst ` set (written (run_log w w')))
     \<and> (code = 0 \<and> (\<forall>cmd d e fs. snd (snd (subprocess_run H cmd d e fs)) (failures_path H a) = fs (failures_path H a))
          \<longrightarrow> files w' (failures_path H a) = files w (failures_path H a))"
proof (cases "tool_seen H a w")
  case False
  from main_missing_run[OF False] obtain w' where
    m: "main H a w = Inr (2, w')"
    and r: "run_log w w' = [Mkdir (out_root H a),
          WriteText (failures_path H a) (''Missing scripts/run_sost.py'' @ [nl]),
          Print ''Missing scripts/run_sost.py'']"
    and f: "files w' = (files (mkdir (out_root H a) w))
          (failures_path H a \<mapsto> ''Missing scripts/run_sost.py'' @ [nl])"
    by blast
  show ?thesis
    apply (rule exI[of _ 2], rule exI[of _ w'])
    using m r f by simp
next
  case True
  show ?thesis
  proof (cases "csv_files H a w = []")
    case True
    from main_no_csv_run[OF \<open>tool_seen H a w\<close> True] obtain w' where
      m: "main H a w = Inr (2, w')"
      and r: "run_log w w' = [Mkdir (out_root H a), Spawn (help_cmd H),
          WriteText (failures_path H a) (''No CSV matched pattern: '' @ arg_pattern a @ [nl]),
          Print (''No CSV matched pattern: '' @ arg_pattern a)]"
      and f: "files w' = (snd (snd (subprocess_run H (help_cmd H) (cwd H) (child_env H)
                         (files (mkdir (out_root H a) w)))))
          (failures_path H a \<mapsto> ''No CSV matched pattern: '' @ arg_pattern a @ [nl])"
      by blast
    show ?thesis
      apply (rule exI[of _ 2], rule exI[of _ w'])
      using m r f by simp
  next
    case False
    from main_aggregates[OF \<open>tool_seen H a w\<close> False] obtain results failures w3 log w' where
      m: "main H a w = Inr (if failures \<noteq> [] then 1 else 0, w')"
      and w1: "summary_path H a \<notin> fst ` set (written log)"
      and w2: "failures_path H a \<notin> fst ` set (written log)"
      and r: "run_log w w' = log
          @ [WriteText (summary_path H a)
               (json_dumps H (make_summary H a results (fst (detected H a w)) (snd (detected H a w))))]
          @ (if failures \<noteq> [] then
               [WriteText (failures_path H a) (join_lines failures @ [nl]),
                Print ''Band suite FAILED:'', Print (join_lines failures)]
             else [Print (''Band suite OK: '' @ str_nat (length (filter (\<lambda>r. rc r = 0) results))
                           @ ''/'' @ str_nat (length results))])"
      and fs: "files w' (summary_path H a) =
          Some (json_dumps H (make_summary H a results (fst (detected H a w)) (snd (detected H a w))))"
      and ff: "files w' (failures_path H a) =
          (if failures \<noteq> [] then Some (join_lines failures @ [nl]) else files (w3::world) (failures_path H a))"
      and fr: "(\<forall>cmd d e fs. snd (snd (subprocess_run H cmd d e fs)) (failures_path H a) = fs (failures_path H a))
          \<longrightarrow> files w3 (failures_path H a) = files w (failures_path H a)"
      by blast
    note ne = not_sym[OF summary_not_failures[of H a]]
    show ?thesis
    proof (cases "failures = []")
      case True
      show ?thesis
        apply (rule exI[of _ 0], rule exI[of _ w'])
        using m r fs ff fr w1 w2 True ne
        by (simp add: written_append written_fst_filter)
    next
      case False
      show ?thesis
        apply (rule exI[of _ 1], rule exI[of _ w'])
        using m r fs ff w1 w2 False ne
        by (simp add: written_append written_fst_filter)
    qed
  qed
qed

section \<open>Facts about the concrete runs\<close>

lemma silent_tool: "tool_present silent_host demo_world"
  by (simp add: tool_present_def exists_def run_sost_path_def silent_host_def demo_host_def
        demo_world_def joinpath_def)

lemma silent_help: "fst (help_run silent_host demo_args demo_world) = []"
  by (simp add: help_run_eq help_cmd_def silent_host_def demo_host_def)


lemma demo_sorted:
  "sorted_paths [''/repo/test_data/band_low.csv'', ''/repo/test_data/band_high.csv'']
     = [''/repo/test_data/band_high.csv'', ''/repo/test_data/band_low.csv'']"
  by code_simp

lemma demo_tool: "tool_present demo_host demo_world"
  by (simp add: tool_present_def exists_def run_sost_path_def demo_host_def demo_world_def
        joinpath_def)

lemma demo_csv:
  "csv_files demo_host demo_args demo_world
     = [''/repo/test_data/band_high.csv'', ''/repo/test_data/band_low.csv'']"
  using demo_sorted by (simp add: csv_files_def demo_host_def)

lemma empty_tool: "tool_present empty_host demo_world"
  by (simp add: tool_present_def exists_def run_sost_path_def empty_host_def demo_host_def
        demo_world_def joinpath_def)

lemma empty_csv: "csv_files empty_host demo_args demo_world = []"
  by (simp add: csv_files_def empty_host_def demo_host_def)

lemma bare_tool: "\<not> tool_present demo_host bare_world"
  by (simp add: tool_present_def exists_def bare_world_def)

lemma demo_help: "fst (help_run demo_host demo_args demo_world) = ''usage: run_sost.py --input-csv CSV --outdir DIR''"
  by (simp add: help_run_eq help_cmd_def demo_host_def)

lemma demo_detected: "detected demo_host demo_args demo_world = (Some ''--input-csv'', Some ''--outdir'')"
  by (simp add: detected_def demo_help pick_flags_def input_candidates_def outdir_candidates_def)

lemma demo_cmd_high:
  "fixture_cmd demo_host demo_args demo_world ''/repo/test_data/band_high.csv''
     = [''python'', ''/repo/scripts/run_sost.py'', ''--input-csv'',
        ''/repo/test_data/band_high.csv'', ''--outdir'', ''/repo/_ci_out/sost_out_band_high'']"
  unfolding fixture_cmd_def demo_detected
  by (simp add: band_cmd_def band_out_dir_def out_root_def run_sost_path_def
        demo_host_def demo_args_def joinpath_def stem_def path_name_def Let_def)

lemma demo_cmd_low:
  "fixture_cmd demo_host demo_args demo_world ''/repo/test_data/band_low.csv''
     = [''python'', ''/repo/scripts/run_sost.py'', ''--input-csv'',
        ''/repo/test_data/band_low.csv'', ''--outdir'', ''/repo/_ci_out/sost_out_band_low'']"
  unfolding fixture_cmd_def demo_detected
  by (simp add: band_cmd_def band_out_dir_def out_root_def run_sost_path_def
        demo_host_def demo_args_def joinpath_def stem_def path_name_def Let_def)

lemma demo_help_cmd: "help_cmd demo_host = [''python'', ''/repo/scripts/run_sost.py'', ''--help'']"
  by (simp add: help_cmd_def run_sost_path_def demo_host_def joinpath_def)

lemma demo_out_root: "out_root demo_host demo_args = ''/repo/_ci_out''"
  by (simp add: out_root_def demo_host_def demo_args_def joinpath_def)

lemma demo_failures_path: "failures_path demo_host demo_args = ''/repo/_ci_out/band_suite_failures.txt''"
  by (simp add: failures_path_def demo_out_root joinpath_def)

lemma demo_pattern: "arg_pattern demo_args = ''test_data/band_*.csv''"
  by (simp add: demo_args_def)

lemma empty_paths:
  "out_root empty_host demo_args = ''/repo/_ci_out''"
  "failures_path empty_host demo_args = ''/repo/_ci_out/band_suite_failures.txt''"
  "help_cmd empty_host = [''python'', ''/repo/scripts/run_sost.py'', ''--help'']"
  by (simp_all add: failures_path_def out_root_def help_cmd_def run_sost_path_def empty_host_def
        demo_host_def demo_args_def joinpath_def)

lemma silent_csv:
  "csv_files silent_host demo_args demo_world
     = [''/repo/test_data/band_high.csv'', ''/repo/test_data/band_low.csv'']"
  using demo_sorted by (simp add: csv_files_def silent_host_def demo_host_def)

lemma silent_help_cmd: "help_cmd silent_host = [''python'', ''/repo/scripts/run_sost.py'', ''--help'']"
  by (simp add: help_cmd_def run_sost_path_def silent_host_def demo_host_def joinpath_def)

lemma silent_probe:
  "subprocess_run silent_host (help_cmd silent_host) (cwd silent_host) (child_env silent_host)
     (files (mkdir (out_root silent_host demo_args) demo_world))
   = (1, [], files (mkdir (out_root silent_host demo_args) demo_world))"
  unfolding silent_help_cmd by (simp add: silent_host_def demo_host_def)

lemma passing_tool: "tool_present passing_host stale_world"
  by (simp add: tool_present_def exists_def run_sost_path_def passing_host_def demo_host_def
        stale_world_def joinpath_def)

lemma passing_csv: "csv_files passing_host demo_args stale_world = [''/repo/test_data/band_low.csv'']"
  by (simp add: csv_files_def passing_host_def demo_host_def sorted_paths_def)

lemma passing_help: "fst (help_run passing_host demo_args stale_world) = ''usage: run_sost.py --input-csv CSV --outdir DIR''"
  by (simp add: help_run_eq help_cmd_def passing_host_def demo_host_def)

lemma passing_detected: "detected passing_host demo_args stale_world = (Some ''--input-csv'', Some ''--outdir'')"
  by (simp add: detected_def passing_help pick_flags_def input_candidates_def outdir_candidates_def)

lemma passing_cmd_low:
  "fixture_cmd passing_host demo_args stale_world ''/repo/test_data/band_low.csv''
     = [''python'', ''/repo/scripts/run_sost.py'', ''--input-csv'',
        ''/repo/test_data/band_low.csv'', ''--outdir'', ''/repo/_ci_out/sost_out_band_low'']"
  unfolding fixture_cmd_def passing_detected
  by (simp add: band_cmd_def band_out_dir_def out_root_def run_sost_path_def passing_host_def
        demo_host_def demo_args_def joinpath_def stem_def path_name_def Let_def)

lemma passing_failures_path:
  "failures_path passing_host demo_args = ''/repo/_ci_out/band_suite_failures.txt''"
  by (simp add: failures_path_def out_root_def passing_host_def demo_host_def demo_args_def
        joinpath_def)

lemma passing_frame:
  "\<forall>cmd d e fs. snd (snd (subprocess_run passing_host cmd d e fs)) (failures_path passing_host demo_args)
      = fs (failures_path passing_host demo_args)"
  unfolding passing_failures_path by (simp add: passing_host_def demo_host_def)

lemma passing_code: "\<exists>w'. main passing_host demo_args stale_world = Inr (0, w')"
proof -
  have ne: "csv_files passing_host demo_args stale_world \<noteq> []" by (simp add: passing_csv)
  from main_aggregates[OF tool_present_seen[OF passing_tool] ne] obtain results failures w3 w' where
    s: "suite_run passing_host demo_args stale_world = Inr (results, failures, w3)"
    and c: "map csv results = csv_files passing_host demo_args stale_world"
    and f: "failures = map failure_line (filter (\<lambda>r. rc r \<noteq> 0) results)"
    and m: "main passing_host demo_args stale_world = Inr (if failures \<noteq> [] then 1 else 0, w')"
    by blast
  from c have "map csv results = [''/repo/test_data/band_low.csv'']" by (simp only: passing_csv)
  then obtain r where rs: "results = [r]" and rcsv: "csv r = ''/repo/test_data/band_low.csv''"
    by (cases results) auto
  from rs have rin: "r \<in> set results" by simp
  from suite_rc[OF s rin] obtain v :: world where
    "rc r = fst (subprocess_run passing_host (fixture_cmd passing_host demo_args stale_world (csv r))
                   (cwd passing_host) (child_env passing_host) (files v))"
    by blast
  then have "rc r = fst (subprocess_run passing_host
        [''python'', ''/repo/scripts/run_sost.py'', ''--input-csv'',
         ''/repo/test_data/band_low.csv'', ''--outdir'', ''/repo/_ci_out/sost_out_band_low'']
        (cwd passing_host) (child_env passing_host) (files v))"
    by (simp only: rcsv passing_cmd_low)
  then have "rc r = 0" by (simp add: passing_host_def demo_host_def)
  with f rs have "failures = []" by simp
  with m show ?thesis by auto
qed

lemma failing_run_code: "\<exists>w'. main demo_host demo_args demo_world = Inr (1, w')"
proof -
  have ne: "csv_files demo_host demo_args demo_world \<noteq> []" by (simp add: demo_csv)
  from main_aggregates[OF tool_present_seen[OF demo_tool] ne] obtain results failures w3 w' where
    s: "suite_run demo_host demo_args demo_world = Inr (results, failures, w3)"
    and c: "map csv results = csv_files demo_host demo_args demo_world"
    and f: "failures = map failure_line (filter (\<lambda>r. rc r \<noteq> 0) results)"
    and m: "main demo_host demo_args demo_world = Inr (if failures \<noteq> [] then 1 else 0, w')"
    by blast
  from c have "map csv results = [''/repo/test_data/band_high.csv'', ''/repo/test_data/band_low.csv'']"
    by (simp only: demo_csv)
  then obtain r rs where rs: "results = r # rs" and rcsv: "csv r = ''/repo/test_data/band_high.csv''"
    by (cases results) auto
  from rs have rin: "r \<in> set results" by simp
  from suite_rc[OF s rin] obtain v :: world where
    "rc r = fst (subprocess_run demo_host (fixture_cmd demo_host demo_args demo_world (csv r))
                   (cwd demo_host) (child_env demo_host) (files v))"
    by blast
  then have "rc r = fst (subprocess_run demo_host
        [''python'', ''/repo/scripts/run_sost.py'', ''--input-csv'',
         ''/repo/test_data/band_high.csv'', ''--outdir'', ''/repo/_ci_out/sost_out_band_high'']
        (cwd demo_host) (child_env demo_host) (files v))"
    by (simp only: rcsv demo_cmd_high)
  then have "rc r = 3" by (simp add: demo_host_def)
  with f rs have "failures \<noteq> []" by simp
  with m show ?thesis by auto
qed

lemma str_int_3: "str_int 3 = ''3''"
  by code_simp

lemma demo_records:
  assumes s: "suite_run demo_host demo_args demo_world = Inr (results, failures, w3)"
  shows "\<exists>q r. results = [q, r]
     \<and> csv q = ''/repo/test_data/band_high.csv'' \<and> csv r = ''/repo/test_data/band_low.csv''
     \<and> band q = ''band_high'' \<and> band r = ''band_low''
     \<and> rc q = 3 \<and> rc r = 0"
proof -
  from suite_run_facts[of demo_host demo_args demo_world] s
  have "map csv results = csv_files demo_host demo_args demo_world" by auto
  then have "map csv results = [''/repo/test_data/band_high.csv'', ''/repo/test_data/band_low.csv'']"
    by (simp only: demo_csv)
  then obtain q r where rs: "results = [q, r]"
    and qc: "csv q = ''/repo/test_data/band_high.csv''"
    and rc': "csv r = ''/repo/test_data/band_low.csv''"
    by (cases results; cases "tl results") auto
  from rs have qin: "q \<in> set results" and rin: "r \<in> set results" by simp_all
  have bq: "band q = ''band_high''"
    using suite_band[OF s qin] by (simp add: qc stem_def path_name_def Let_def)
  have br: "band r = ''band_low''"
    using suite_band[OF s rin] by (simp add: rc' stem_def path_name_def Let_def)
  from suite_rc[OF s qin] obtain v :: world where
    "rc q = fst (subprocess_run demo_host (fixture_cmd demo_host demo_args demo_world (csv q))
                   (cwd demo_host) (child_env demo_host) (files v))"
    by blast
  then have "rc q = fst (subprocess_run demo_host
        [''python'', ''/repo/scripts/run_sost.py'', ''--input-csv'',
         ''/repo/test_data/band_high.csv'', ''--outdir'', ''/repo/_ci_out/sost_out_band_high'']
        (cwd demo_host) (child_env demo_host) (files v))"
    by (simp only: qc demo_cmd_high)
  then have q3: "rc q = 3" by (simp add: demo_host_def)
  from suite_rc[OF s rin] obtain u :: world where
    "rc r = fst (subprocess_run demo_host (fixture_cmd demo_host demo_args demo_world (csv r))
                   (cwd demo_host) (child_env demo_host) (files u))"
    by blast
  then have "rc r = fst (subprocess_run demo_host
        [''python'', ''/repo/scripts/run_sost.py'', ''--input-csv'',
         ''/repo/test_data/band_low.csv'', ''--outdir'', ''/repo/_ci_out/sost_out_band_low'']
        (cwd demo_host) (child_env demo_host) (files u))"
    by (simp only: rc' demo_cmd_low)
  then have r0: "rc r = 0" by (simp add: demo_host_def)
  show ?thesis
    by (intro exI[of _ q] exI[of _ r] conjI) (rule rs qc rc' bq br q3 r0)+
qed

lemma demo_summary_path: "summary_path demo_host demo_args = ''/repo/_ci_out/band_suite_summary.json''"
  by (simp add: summary_path_def demo_out_root joinpath_def)

section \<open>Lines\<close>

lemma join_lines_nl: "ls \<noteq> [] \<Longrightarrow> join_lines ls @ [nl] = concat (map (\<lambda>l. l @ [nl]) ls)"
  by (induction ls rule: join_lines.induct) simp_all

lemma split_on_not_Nil: "split_on sep s \<noteq> []"
  by (induction s) (simp_all split: list.splits)

lemma split_on_line: "sep \<notin> set l \<Longrightarrow> split_on sep (l @ sep # rest) = l # split_on sep rest"
proof (induction l)
  case Nil
  show ?case by simp
next
  case (Cons c l)
  then have "split_on sep (l @ sep # rest) = l # split_on sep rest" and "c \<noteq> sep" by auto
  then show ?case by simp
qed

lemma split_on_lines:
  "\<forall>l \<in> set ls. sep \<notin> set l \<Longrightarrow> split_on sep (concat (map (\<lambda>l. l @ [sep]) ls)) = ls @ [[]]"
proof (induction ls)
  case Nil
  show ?case by simp
next
  case (Cons l ls)
  then have ih: "split_on sep (concat (map (\<lambda>l. l @ [sep]) ls)) = ls @ [[]]"
    and l: "sep \<notin> set l" by auto
  have "concat (map (\<lambda>l. l @ [sep]) (l # ls)) = l @ sep # concat (map (\<lambda>l. l @ [sep]) ls)"
    by simp
  with split_on_line[OF l] ih show ?case by simp
qed

section \<open>The run with three fixtures\<close>

lemma str_int_1: "str_int 1 = ''1''"
  by code_simp

lemma str_int_2: "str_int 2 = ''2''"
  by code_simp

lemma mixed_sorted:
  "sorted_paths [''/repo/test_data/band_2.csv'', ''/repo/test_data/band_10.csv'',
                 ''/repo/test_data/band_1.csv'']
     = [''/repo/test_data/band_1.csv'', ''/repo/test_data/band_10.csv'',
        ''/repo/test_data/band_2.csv'']"
  by code_simp

lemma mixed_tool: "tool_present mixed_host demo_world"
  by (simp add: tool_present_def exists_def run_sost_path_def mixed_host_def demo_host_def
        demo_world_def joinpath_def)

lemma mixed_csv:
  "csv_files mixed_host demo_args demo_world
     = [''/repo/test_data/band_1.csv'', ''/repo/test_data/band_10.csv'',
        ''/repo/test_data/band_2.csv'']"
  using mixed_sorted by (simp add: csv_files_def mixed_host_def demo_host_def)

lemma mixed_help: "fst (help_run mixed_host demo_args demo_world) = ''usage: run_sost.py --input-csv CSV --outdir DIR''"
  by (simp add: help_run_eq help_cmd_def mixed_host_def demo_host_def)

lemma mixed_detected: "detected mixed_host demo_args demo_world = (Some ''--input-csv'', Some ''--outdir'')"
  by (simp add: detected_def mixed_help pick_flags_def input_candidates_def outdir_candidates_def)

lemma mixed_cmd_1:
  "fixture_cmd mixed_host demo_args demo_world ''/repo/test_data/band_1.csv''
     = [''python'', ''/repo/scripts/run_sost.py'', ''--input-csv'',
        ''/repo/test_data/band_1.csv'', ''--outdir'', ''/repo/_ci_out/sost_out_band_1'']"
  unfolding fixture_cmd_def mixed_detected
  by (simp add: band_cmd_def band_out_dir_def out_root_def run_sost_path_def mixed_host_def
        demo_host_def demo_args_def joinpath_def stem_def path_name_def Let_def)

lemma mixed_cmd_10:
  "fixture_cmd mixed_host demo_args demo_world ''/repo/test_data/band_10.csv''
     = [''python'', ''/repo/scripts/run_sost.py'', ''--input-csv'',
        ''/repo/test_data/band_10.csv'', ''--outdir'', ''/repo/_ci_out/sost_out_band_10'']"
  unfolding fixture_cmd_def mixed_detected
  by (simp add: band_cmd_def band_out_dir_def out_root_def run_sost_path_def mixed_host_def
        demo_host_def demo_args_def joinpath_def stem_def path_name_def Let_def)

lemma mixed_cmd_2:
  "fixture_cmd mixed_host demo_args demo_world ''/repo/test_data/band_2.csv''
     = [''python'', ''/repo/scripts/run_sost.py'', ''--input-csv'',
        ''/repo/test_data/band_2.csv'', ''--outdir'', ''/repo/_ci_out/sost_out_band_2'']"
  unfolding fixture_cmd_def mixed_detected
  by (simp add: band_cmd_def band_out_dir_def out_root_def run_sost_path_def mixed_host_def
        demo_host_def demo_args_def joinpath_def stem_def path_name_def Let_def)

lemma mixed_help_cmd: "help_cmd mixed_host = [''python'', ''/repo/scripts/run_sost.py'', ''--help'']"
  by (simp add: help_cmd_def run_sost_path_def mixed_host_def demo_host_def joinpath_def)

lemma mixed_failures_path: "failures_path mixed_host demo_args = ''/repo/_ci_out/band_suite_failures.txt''"
  by (simp add: failures_path_def out_root_def mixed_host_def demo_host_def demo_args_def joinpath_def)

lemma mixed_rc:
  assumes s: "suite_run mixed_host demo_args demo_world = Inr (results, failures, w3)"
    and r: "r \<in> set results"
  shows "csv r = ''/repo/test_data/band_1.csv'' \<Longrightarrow> rc r = 0"
    and "csv r = ''/repo/test_data/band_10.csv'' \<Longrightarrow> rc r = 1"
    and "csv r = ''/repo/test_data/band_2.csv'' \<Longrightarrow> rc r = 2"
proof -
  from suite_rc[OF s r] obtain v :: world where
    k: "rc r = fst (subprocess_run mixed_host (fixture_cmd mixed_host demo_args demo_world (csv r))
                   (cwd mixed_host) (child_env mixed_host) (files v))"
    by blast
  { assume c: "csv r = ''/repo/test_data/band_1.csv''"
    from k have "rc r = fst (subprocess_run mixed_host
        [''python'', ''/repo/scripts/run_sost.py'', ''--input-csv'',
         ''/repo/test_data/band_1.csv'', ''--outdir'', ''/repo/_ci_out/sost_out_band_1'']
        (cwd mixed_host) (child_env mixed_host) (files v))"
      by (simp only: c mixed_cmd_1)
    then show "rc r = 0" by (simp add: mixed_host_def demo_host_def) }
  { assume c: "csv r = ''/repo/test_data/band_10.csv''"
    from k have "rc r = fst (subprocess_run mixed_host
        [''python'', ''/repo/scripts/run_sost.py'', ''--input-csv'',
         ''/repo/test_data/band_10.csv'', ''--outdir'', ''/repo/_ci_out/sost_out_band_10'']
        (cwd mixed_host) (child_env mixed_host) (files v))"
      by (simp only: c mixed_cmd_10)
    then show "rc r = 1" by (simp add: mixed_host_def demo_host_def) }
  { assume c: "csv r = ''/repo/test_data/band_2.csv''"
    from k have "rc r = fst (subprocess_run mixed_host
        [''python'', ''/repo/scripts/run_sost.py'', ''--input-csv'',
         ''/repo/test_data/band_2.csv'', ''--outdir'', ''/repo/_ci_out/sost_out_band_2'']
        (cwd mixed_host) (child_env mixed_host) (files v))"
      by (simp only: c mixed_cmd_2)
    then show "rc r = 2" by (simp add: mixed_host_def demo_host_def) }
qed

lemma mixed_records:
  assumes s: "suite_run mixed_host demo_args demo_world = Inr (results, failures, w3)"
  shows "map csv results = [''/repo/test_data/band_1.csv'', ''/repo/test_data/band_10.csv'',
                            ''/repo/test_data/band_2.csv'']
     \<and> map band results = [''band_1'', ''band_10'', ''band_2'']
     \<and> map rc results = [0, 1, 2]"
proof -
  from suite_run_facts[of mixed_host demo_args demo_world] s
  have "map csv results = csv_files mixed_host demo_args demo_world" by auto
  then have c: "map csv results = [''/repo/test_data/band_1.csv'', ''/repo/test_data/band_10.csv'',
                            ''/repo/test_data/band_2.csv'']"
    by (simp only: mixed_csv)
  then obtain x y z where rs: "results = [x, y, z]"
    and xc: "csv x = ''/repo/test_data/band_1.csv''"
    and yc: "csv y = ''/repo/test_data/band_10.csv''"
    and zc: "csv z = ''/repo/test_data/band_2.csv''"
    by (cases results; cases "tl results"; cases "tl (tl results)") auto
  from rs have xin: "x \<in> set results" and yin: "y \<in> set results" and zin: "z \<in> set results"
    by simp_all
  have bx: "band x = ''band_1''"
    using suite_band[OF s xin] by (simp add: xc stem_def path_name_def Let_def)
  have bnd: "band y = ''band_10''"
    using suite_band[OF s yin] by (simp add: yc stem_def path_name_def Let_def)
  have bz: "band z = ''band_2''"
    using suite_band[OF s zin] by (simp add: zc stem_def path_name_def Let_def)
  have b: "map band results = [''band_1'', ''band_10'', ''band_2'']"
    using rs bx bnd bz by simp
  have k: "map rc results = [0, 1, 2]"
    using rs mixed_rc(1)[OF s xin xc] mixed_rc(2)[OF s yin yc] mixed_rc(3)[OF s zin zc] by simp
  from c b k show ?thesis by (intro conjI)
qed

lemma demo_lineage:
  "lineage ''/repo/_ci_out'' = [''/repo/_ci_out'', ''/repo'', ''/'']"
  by code_simp

lemma tool_dir_root: "out_root demo_host tool_dir_args = ''/repo/scripts/run_sost.py''"
  by (simp add: out_root_def demo_host_def tool_dir_args_def joinpath_def)

lemma demo_tool_path: "run_sost_path demo_host = ''/repo/scripts/run_sost.py''"
  by (simp add: run_sost_path_def demo_host_def joinpath_def)

lemma bare_unseen: "\<not> tool_seen demo_host demo_args bare_world"
  unfolding tool_seen_iff demo_out_root demo_lineage demo_tool_path
  using bare_tool by simp

lemma bare_seen: "tool_seen demo_host tool_dir_args bare_world"
  unfolding tool_seen_iff tool_dir_root demo_tool_path
  by (simp add: lineage_self)

section \<open>Aggregation\<close>

text \<open>
  C1. A run reaches aggregation exactly when it does not return 2. In every such run the
  summary that is written to the summary file satisfies \<open>ok + failed = total\<close>, its
  \<open>total\<close> is the number of its band records, which is the number of paths the glob
  matched, and \<open>ok\<close> (\<open>failed\<close>) is the number of band records whose \<open>rc\<close> is
  (is not) 0.
\<close>

theorem summary_counts:
  assumes "main H a w = Inr (code, w')" and "code \<noteq> 2"
  shows "\<exists>results failures w3 S.
     suite_run H a w = Inr (results, failures, w3)
     \<and> S = make_summary H a results (fst (detected H a w)) (snd (detected H a w))
     \<and> files w' (summary_path H a) = Some (json_dumps H S)
     \<and> ok S + failed S = total S
     \<and> total S = length (bands S)
     \<and> length (bands S) = length (glob H (cwd H) (arg_pattern a) (files (snd (help_run H a w))))
     \<and> ok S = card {i. i < length (bands S) \<and> rc (bands S ! i) = 0}
     \<and> failed S = card {i. i < length (bands S) \<and> rc (bands S ! i) \<noteq> 0}"
proof -
  from assms main_code_2[OF assms(1)] have tp: "tool_seen H a w" and ne: "csv_files H a w \<noteq> []"
    by auto
  from main_aggregates[OF tp ne] obtain results failures w3 v where
    s: "suite_run H a w = Inr (results, failures, w3)"
    and c: "map csv results = csv_files H a w"
    and m: "main H a w = Inr (if failures \<noteq> [] then 1 else 0, v)"
    and f: "files v (summary_path H a) =
          Some (json_dumps H (make_summary H a results (fst (detected H a w)) (snd (detected H a w))))"
    by blast
  let ?S = "make_summary H a results (fst (detected H a w)) (snd (detected H a w))"
  from m assms(1) have v: "v = w'" by simp
  have 1: "files w' (summary_path H a) = Some (json_dumps H ?S)" using f v by simp
  have 2: "ok ?S + failed ?S = total ?S"
    by (simp add: make_summary_def sum_length_filter_compl)
  have 3: "total ?S = length (bands ?S)" by (simp add: make_summary_def)
  have "length results = length (csv_files H a w)" using c by (metis length_map)
  then have 4: "length (bands ?S) = length (glob H (cwd H) (arg_pattern a) (files (snd (help_run H a w))))"
    by (simp add: make_summary_def csv_files_def)
  have 5: "ok ?S = card {i. i < length (bands ?S) \<and> rc (bands ?S ! i) = 0}"
    by (simp add: make_summary_def length_filter_conv_card)
  have 6: "failed ?S = card {i. i < length (bands ?S) \<and> rc (bands ?S ! i) \<noteq> 0}"
    by (simp add: make_summary_def length_filter_conv_card)
  show ?thesis
    by (intro exI[of _ results] exI[of _ failures] exI[of _ w3] exI[of _ ?S] conjI)
       (rule s refl 1 2 3 4 5 6)+
qed

theorem summary_counts_witness:
  "\<exists>w'. main demo_host demo_args demo_world = Inr (1, w') \<and> (1::int) \<noteq> 2
     \<and> (\<exists>S. files w' ''/repo/_ci_out/band_suite_summary.json'' = Some (json_dumps demo_host S)
           \<and> ok S + failed S = total S
           \<and> total S = length (bands S)
           \<and> length (bands S) = length (glob demo_host (cwd demo_host) (arg_pattern demo_args)
                                     (files (snd (help_run demo_host demo_args demo_world))))
           \<and> ok S = card {i. i < length (bands S) \<and> rc (bands S ! i) = 0}
           \<and> failed S = card {i. i < length (bands S) \<and> rc (bands S ! i) \<noteq> 0}
           \<and> map rc (bands S) = [3, 0]
           \<and> total S = 2 \<and> ok S = 1 \<and> failed S = 1)"
proof -
  from failing_run_code obtain w' where m: "main demo_host demo_args demo_world = Inr (1, w')"
    by blast
  have c: "(1::int) \<noteq> 2" by simp
  from summary_counts[OF m c] obtain results failures w3 S where
    s: "suite_run demo_host demo_args demo_world = Inr (results, failures, w3)"
    and d: "S = make_summary demo_host demo_args results (fst (detected demo_host demo_args demo_world))
              (snd (detected demo_host demo_args demo_world))"
    and 1: "files w' (summary_path demo_host demo_args) = Some (json_dumps demo_host S)"
    and 2: "ok S + failed S = total S"
    and 3: "total S = length (bands S)"
    and 4: "length (bands S) = length (glob demo_host (cwd demo_host) (arg_pattern demo_args)
                                     (files (snd (help_run demo_host demo_args demo_world))))"
    and 5: "ok S = card {i. i < length (bands S) \<and> rc (bands S ! i) = 0}"
    and 6: "failed S = card {i. i < length (bands S) \<and> rc (bands S ! i) \<noteq> 0}"
    by blast
  from demo_records[OF s] obtain q r where rs: "results = [q, r]" and q3: "rc q = 3" and r0: "rc r = 0"
    by blast
  have b: "bands S = results" by (simp add: d make_summary_def)
  have 7: "map rc (bands S) = [3, 0]" using b rs q3 r0 by simp
  have 8: "total S = 2" using 3 b rs by simp
  have 9: "ok S = 1" using rs q3 r0 by (simp add: d make_summary_def)
  have 10: "failed S = 1" using rs q3 r0 by (simp add: d make_summary_def)
  have e1: "files w' ''/repo/_ci_out/band_suite_summary.json'' = Some (json_dumps demo_host S)"
    using 1 by (simp only: demo_summary_path)
  show ?thesis
    by (intro exI[of _ w'] exI[of _ S] conjI) (rule m c e1 2 3 4 5 6 7 8 9 10)+
qed

text \<open>
  C2, as the code has it. When the tool is present and at least one fixture matched, the
  loop never raises and a nonzero exit code stops nothing: there is one record per
  matched fixture, in order, the tool is spawned once for the help probe and then once
  for every fixture, and the \<open>rc\<close> of a record is the return code of its child
  process. The driver returns 1 if and only if some record has a nonzero \<open>rc\<close>, and 0
  otherwise. The failure list has one entry for every record with a nonzero \<open>rc\<close>, in
  order, and none for a record with \<open>rc = 0\<close>; the entry is the band name, " rc=", the
  code, " csv=" and the source path. When the driver returns 1 the failures file is
  written once and holds every entry followed by a newline, so splitting the file at
  the newlines gives back exactly the entries (and an empty rest) whenever no band name
  or path holds a newline. The name of a band that exited 0 can still occur in the
  file, inside the entry of a failing band.
\<close>

theorem failing_fixture_does_not_stop_suite:
  assumes "tool_present H w" and "csv_files H a w \<noteq> []"
  shows "\<exists>results failures w3 code w'.
     suite_run H a w = Inr (results, failures, w3)
     \<and> main H a w = Inr (code, w')
     \<and> map csv results = csv_files H a w
     \<and> spawned (run_log w w') = help_cmd H # map (fixture_cmd H a w) (csv_files H a w)
     \<and> (\<forall>r \<in> set results. \<exists>v v'. suite_step H a w (csv r) v = Inr (r, v')
            \<and> band r = stem (csv r)
            \<and> rc r = fst (subprocess_run H (fixture_cmd H a w (csv r)) (cwd H) (child_env H) (files v)))
     \<and> (code = 1) = (\<exists>r \<in> set results. rc r \<noteq> 0)
     \<and> (code = 0) = (\<forall>r \<in> set results. rc r = 0)
     \<and> failures = map (\<lambda>r. band r @ '' rc='' @ str_int (rc r) @ '' csv='' @ csv r)
                      (filter (\<lambda>r. rc r \<noteq> 0) results)
     \<and> (code = 1 \<longrightarrow>
           files w' (failures_path H a) = Some (concat (map (\<lambda>l. l @ [nl]) failures))
           \<and> filter (\<lambda>x. fst x = failures_path H a) (written (run_log w w'))
               = [(failures_path H a, concat (map (\<lambda>l. l @ [nl]) failures))]
           \<and> ((\<forall>l \<in> set failures. nl \<notin> set l) \<longrightarrow>
                 split_on nl (concat (map (\<lambda>l. l @ [nl]) failures)) = failures @ [[]]))"
proof -
  from main_aggregates[OF tool_present_seen[OF assms(1)] assms(2)]
  obtain results failures w3 log w' where
    s: "suite_run H a w = Inr (results, failures, w3)"
    and c: "map csv results = csv_files H a w"
    and f: "failures = map failure_line (filter (\<lambda>r. rc r \<noteq> 0) results)"
    and m: "main H a w = Inr (if failures \<noteq> [] then 1 else 0, w')"
    and sp: "spawned log = help_cmd H # map (fixture_cmd H a w) (csv_files H a w)"
    and w1: "summary_path H a \<notin> fst ` set (written log)"
    and w2: "failures_path H a \<notin> fst ` set (written log)"
    and r: "run_log w w' = log
          @ [WriteText (summary_path H a)
               (json_dumps H (make_summary H a results (fst (detected H a w)) (snd (detected H a w))))]
          @ (if failures \<noteq> [] then
               [WriteText (failures_path H a) (join_lines failures @ [nl]),
                Print ''Band suite FAILED:'', Print (join_lines failures)]
             else [Print (''Band suite OK: '' @ str_nat (length (filter (\<lambda>r. rc r = 0) results))
                           @ ''/'' @ str_nat (length results))])"
    and ff: "files w' (failures_path H a) =
          (if failures \<noteq> [] then Some (join_lines failures @ [nl]) else files w3 (failures_path H a))"
    by blast
  let ?code = "if failures \<noteq> [] then 1 else 0 :: int"
  have fe: "(failures \<noteq> []) = (\<exists>r \<in> set results. rc r \<noteq> 0)"
    using f by (auto simp: filter_empty_conv)
  have 4: "spawned (run_log w w') = help_cmd H # map (fixture_cmd H a w) (csv_files H a w)"
    using sp r by (simp add: spawned_append)
  have 5: "\<forall>r \<in> set results. \<exists>v v'. suite_step H a w (csv r) v = Inr (r, v')
            \<and> band r = stem (csv r)
            \<and> rc r = fst (subprocess_run H (fixture_cmd H a w (csv r)) (cwd H) (child_env H) (files v))"
  proof
    fix x assume x: "x \<in> set results"
    from suite_rc[OF s x] suite_band[OF s x]
    show "\<exists>v v'. suite_step H a w (csv x) v = Inr (x, v')
            \<and> band x = stem (csv x)
            \<and> rc x = fst (subprocess_run H (fixture_cmd H a w (csv x)) (cwd H) (child_env H) (files v))"
      by blast
  qed
  have 6: "(?code = 1) = (\<exists>r \<in> set results. rc r \<noteq> 0)" using fe by simp
  have 7: "(?code = 0) = (\<forall>r \<in> set results. rc r = 0)" using fe by auto
  have 8: "failures = map (\<lambda>r. band r @ '' rc='' @ str_int (rc r) @ '' csv='' @ csv r)
                      (filter (\<lambda>r. rc r \<noteq> 0) results)"
    using f by (simp add: failure_line_def)
  have 9: "?code = 1 \<longrightarrow>
           files w' (failures_path H a) = Some (concat (map (\<lambda>l. l @ [nl]) failures))
           \<and> filter (\<lambda>x. fst x = failures_path H a) (written (run_log w w'))
               = [(failures_path H a, concat (map (\<lambda>l. l @ [nl]) failures))]
           \<and> ((\<forall>l \<in> set failures. nl \<notin> set l) \<longrightarrow>
                 split_on nl (concat (map (\<lambda>l. l @ [nl]) failures)) = failures @ [[]])"
  proof
    assume "?code = 1"
    then have ne: "failures \<noteq> []" by (simp split: if_splits)
    note j = join_lines_nl[OF ne]
    have a: "files w' (failures_path H a) = Some (concat (map (\<lambda>l. l @ [nl]) failures))"
      using ff ne j by simp
    have b: "filter (\<lambda>x. fst x = failures_path H a) (written (run_log w w'))
               = [(failures_path H a, concat (map (\<lambda>l. l @ [nl]) failures))]"
      using r ne j written_fst_filter[OF w2] not_sym[OF summary_not_failures[of H a]]
      by (simp add: written_append)
    have d: "(\<forall>l \<in> set failures. nl \<notin> set l) \<longrightarrow>
                 split_on nl (concat (map (\<lambda>l. l @ [nl]) failures)) = failures @ [[]]"
      using split_on_lines[of failures nl] by blast
    from a b d show "files w' (failures_path H a) = Some (concat (map (\<lambda>l. l @ [nl]) failures))
           \<and> filter (\<lambda>x. fst x = failures_path H a) (written (run_log w w'))
               = [(failures_path H a, concat (map (\<lambda>l. l @ [nl]) failures))]
           \<and> ((\<forall>l \<in> set failures. nl \<notin> set l) \<longrightarrow>
                 split_on nl (concat (map (\<lambda>l. l @ [nl]) failures)) = failures @ [[]])"
      by (intro conjI)
  qed
  show ?thesis
    by (intro exI[of _ results] exI[of _ failures] exI[of _ w3] exI[of _ ?code] exI[of _ w'] conjI)
       (rule s m c 4 5 6 7 8 9)+
qed

theorem failing_fixture_does_not_stop_suite_witness:
  "tool_present mixed_host demo_world
   \<and> csv_files mixed_host demo_args demo_world \<noteq> []
   \<and> (\<exists>results failures w3 w'.
        suite_run mixed_host demo_args demo_world = Inr (results, failures, w3)
        \<and> main mixed_host demo_args demo_world = Inr (1, w')
        \<and> map csv results = [''/repo/test_data/band_1.csv'', ''/repo/test_data/band_10.csv'',
                               ''/repo/test_data/band_2.csv'']
        \<and> map rc results = [0, 1, 2]
        \<and> failures = [''band_10 rc=1 csv=/repo/test_data/band_10.csv'',
                        ''band_2 rc=2 csv=/repo/test_data/band_2.csv'']
        \<and> spawned (run_log demo_world w') =
            [[''python'', ''/repo/scripts/run_sost.py'', ''--help''],
             [''python'', ''/repo/scripts/run_sost.py'', ''--input-csv'',
              ''/repo/test_data/band_1.csv'', ''--outdir'', ''/repo/_ci_out/sost_out_band_1''],
             [''python'', ''/repo/scripts/run_sost.py'', ''--input-csv'',
              ''/repo/test_data/band_10.csv'', ''--outdir'', ''/repo/_ci_out/sost_out_band_10''],
             [''python'', ''/repo/scripts/run_sost.py'', ''--input-csv'',
              ''/repo/test_data/band_2.csv'', ''--outdir'', ''/repo/_ci_out/sost_out_band_2'']]
        \<and> files w' ''/repo/_ci_out/band_suite_failures.txt''
            = Some (''band_10 rc=1 csv=/repo/test_data/band_10.csv'' @ [nl]
                    @ ''band_2 rc=2 csv=/repo/test_data/band_2.csv'' @ [nl])
        \<and> split_on nl (''band_10 rc=1 csv=/repo/test_data/band_10.csv'' @ [nl]
                    @ ''band_2 rc=2 csv=/repo/test_data/band_2.csv'' @ [nl])
            = [''band_10 rc=1 csv=/repo/test_data/band_10.csv'',
               ''band_2 rc=2 csv=/repo/test_data/band_2.csv'', ''''])"
proof -
  have ne: "csv_files mixed_host demo_args demo_world \<noteq> []" by (simp add: mixed_csv)
  from failing_fixture_does_not_stop_suite[OF mixed_tool ne]
  obtain results failures w3 code w' where
    s: "suite_run mixed_host demo_args demo_world = Inr (results, failures, w3)"
    and m: "main mixed_host demo_args demo_world = Inr (code, w')"
    and sp: "spawned (run_log demo_world w') = help_cmd mixed_host
               # map (fixture_cmd mixed_host demo_args demo_world) (csv_files mixed_host demo_args demo_world)"
    and c1: "(code = 1) = (\<exists>r \<in> set results. rc r \<noteq> 0)"
    and f: "failures = map (\<lambda>r. band r @ '' rc='' @ str_int (rc r) @ '' csv='' @ csv r)
                      (filter (\<lambda>r. rc r \<noteq> 0) results)"
    and w: "code = 1 \<longrightarrow>
           files w' (failures_path mixed_host demo_args) = Some (concat (map (\<lambda>l. l @ [nl]) failures))
           \<and> filter (\<lambda>x. fst x = failures_path mixed_host demo_args) (written (run_log demo_world w'))
               = [(failures_path mixed_host demo_args, concat (map (\<lambda>l. l @ [nl]) failures))]
           \<and> ((\<forall>l \<in> set failures. nl \<notin> set l) \<longrightarrow>
                 split_on nl (concat (map (\<lambda>l. l @ [nl]) failures)) = failures @ [[]])"
    by blast
  from mixed_records[OF s] have
    cs: "map csv results = [''/repo/test_data/band_1.csv'', ''/repo/test_data/band_10.csv'',
                            ''/repo/test_data/band_2.csv'']"
    and bs: "map band results = [''band_1'', ''band_10'', ''band_2'']"
    and ks: "map rc results = [0, 1, 2]"
    by simp_all
  from cs obtain x y z where rs: "results = [x, y, z]"
    by (cases results; cases "tl results"; cases "tl (tl results)") auto
  from rs cs bs ks have xyz:
    "rc x = 0" "rc y = 1" "rc z = 2" "band y = ''band_10''" "band z = ''band_2''"
    "csv y = ''/repo/test_data/band_10.csv''" "csv z = ''/repo/test_data/band_2.csv''"
    by simp_all
  from c1 rs xyz have code: "code = 1" by simp
  from m code have m1: "main mixed_host demo_args demo_world = Inr (1, w')" by simp
  have fl: "failures = [''band_10 rc=1 csv=/repo/test_data/band_10.csv'',
                        ''band_2 rc=2 csv=/repo/test_data/band_2.csv'']"
    using f rs xyz by (simp add: str_int_1 str_int_2)
  have sp2: "spawned (run_log demo_world w') =
            [[''python'', ''/repo/scripts/run_sost.py'', ''--help''],
             [''python'', ''/repo/scripts/run_sost.py'', ''--input-csv'',
              ''/repo/test_data/band_1.csv'', ''--outdir'', ''/repo/_ci_out/sost_out_band_1''],
             [''python'', ''/repo/scripts/run_sost.py'', ''--input-csv'',
              ''/repo/test_data/band_10.csv'', ''--outdir'', ''/repo/_ci_out/sost_out_band_10''],
             [''python'', ''/repo/scripts/run_sost.py'', ''--input-csv'',
              ''/repo/test_data/band_2.csv'', ''--outdir'', ''/repo/_ci_out/sost_out_band_2'']]"
    using sp by (simp only: mixed_csv list.map mixed_cmd_1 mixed_cmd_10 mixed_cmd_2 mixed_help_cmd)
  have nonl: "\<forall>l \<in> set failures. nl \<notin> set l"
    unfolding fl by (simp add: nl_def)
  from w code have "files w' (failures_path mixed_host demo_args)
        = Some (concat (map (\<lambda>l. l @ [nl]) failures))" by simp
  then have ff: "files w' ''/repo/_ci_out/band_suite_failures.txt''
            = Some (''band_10 rc=1 csv=/repo/test_data/band_10.csv'' @ [nl]
                    @ ''band_2 rc=2 csv=/repo/test_data/band_2.csv'' @ [nl])"
    by (simp add: mixed_failures_path fl)
  from w code nonl have "split_on nl (concat (map (\<lambda>l. l @ [nl]) failures)) = failures @ [[]]"
    by blast
  then have sl: "split_on nl (''band_10 rc=1 csv=/repo/test_data/band_10.csv'' @ [nl]
                    @ ''band_2 rc=2 csv=/repo/test_data/band_2.csv'' @ [nl])
            = [''band_10 rc=1 csv=/repo/test_data/band_10.csv'',
               ''band_2 rc=2 csv=/repo/test_data/band_2.csv'', '''']"
    by (simp add: fl)
  show ?thesis
    by (intro conjI exI[of _ results] exI[of _ failures] exI[of _ w3] exI[of _ w'])
       (rule mixed_tool ne s m1 cs ks fl sp2 ff sl)+
qed

theorem passing_band_name_in_failures_counterexample:
  "\<exists>results failures w3 w'.
     suite_run mixed_host demo_args demo_world = Inr (results, failures, w3)
     \<and> main mixed_host demo_args demo_world = Inr (1, w')
     \<and> map band results = [''band_1'', ''band_10'', ''band_2'']
     \<and> map rc results = [0, 1, 2]
     \<and> files w' ''/repo/_ci_out/band_suite_failures.txt''
         = Some (''band_10 rc=1 csv=/repo/test_data/band_10.csv'' @ [nl]
                 @ ''band_2 rc=2 csv=/repo/test_data/band_2.csv'' @ [nl])
     \<and> str_contains ''band_1'' (''band_10 rc=1 csv=/repo/test_data/band_10.csv'' @ [nl]
                 @ ''band_2 rc=2 csv=/repo/test_data/band_2.csv'' @ [nl])"
proof -
  have ne: "csv_files mixed_host demo_args demo_world \<noteq> []" by (simp add: mixed_csv)
  from main_aggregates[OF tool_present_seen[OF mixed_tool] ne]
  obtain results failures w3 w' where
    s: "suite_run mixed_host demo_args demo_world = Inr (results, failures, w3)"
    and f: "failures = map failure_line (filter (\<lambda>r. rc r \<noteq> 0) results)"
    and m: "main mixed_host demo_args demo_world = Inr (if failures \<noteq> [] then 1 else 0, w')"
    and ff: "files w' (failures_path mixed_host demo_args) =
          (if failures \<noteq> [] then Some (join_lines failures @ [nl])
           else files w3 (failures_path mixed_host demo_args))"
    by blast
  from mixed_records[OF s] have
    cs: "map csv results = [''/repo/test_data/band_1.csv'', ''/repo/test_data/band_10.csv'',
                            ''/repo/test_data/band_2.csv'']"
    and bs: "map band results = [''band_1'', ''band_10'', ''band_2'']"
    and ks: "map rc results = [0, 1, 2]"
    by simp_all
  from cs obtain x y z where rs: "results = [x, y, z]"
    by (cases results; cases "tl results"; cases "tl (tl results)") auto
  from rs cs bs ks have xyz:
    "rc x = 0" "rc y = 1" "rc z = 2" "band y = ''band_10''" "band z = ''band_2''"
    "csv y = ''/repo/test_data/band_10.csv''" "csv z = ''/repo/test_data/band_2.csv''"
    by simp_all
  have fl: "failures = [''band_10 rc=1 csv=/repo/test_data/band_10.csv'',
                        ''band_2 rc=2 csv=/repo/test_data/band_2.csv'']"
    using f rs xyz by (simp add: failure_line_def str_int_1 str_int_2)
  from m fl have m1: "main mixed_host demo_args demo_world = Inr (1, w')" by simp
  from ff fl have fc: "files w' ''/repo/_ci_out/band_suite_failures.txt''
         = Some (''band_10 rc=1 csv=/repo/test_data/band_10.csv'' @ [nl]
                 @ ''band_2 rc=2 csv=/repo/test_data/band_2.csv'' @ [nl])"
    by (simp add: mixed_failures_path)
  have sc: "str_contains ''band_1'' (''band_10 rc=1 csv=/repo/test_data/band_10.csv'' @ [nl]
                 @ ''band_2 rc=2 csv=/repo/test_data/band_2.csv'' @ [nl])"
    by simp
  show ?thesis
    by (intro conjI exI[of _ results] exI[of _ failures] exI[of _ w3] exI[of _ w'])
       (rule s m1 bs ks fc sc)+
qed

text \<open>
  C6. In every run that reaches aggregation (it returns 0 or 1, so also when fixtures
  failed), the log of the run splits around one write of the summary file: before it the
  help probe and every fixture have been spawned, after it nothing is spawned, and it is
  the only write to that path. The summary holds the host's UTC timestamp in ISO format,
  the pattern, the three totals, the band records and the detected flags, and its band
  records are in the sorted order of the paths the glob matched.
\<close>

theorem summary_written_once_after_all_fixtures:
  assumes "main H a w = Inr (code, w')" and "code \<noteq> 2"
  shows "\<exists>results failures w3 S pre post.
     suite_run H a w = Inr (results, failures, w3)
     \<and> S = make_summary H a results (fst (detected H a w)) (snd (detected H a w))
     \<and> run_log w w' = pre @ [WriteText (summary_path H a) (json_dumps H S)] @ post
     \<and> spawned pre = help_cmd H # map (fixture_cmd H a w) (csv_files H a w)
     \<and> spawned post = []
     \<and> filter (\<lambda>x. fst x = summary_path H a) (written (run_log w w'))
         = [(summary_path H a, json_dumps H S)]
     \<and> files w' (summary_path H a) = Some (json_dumps H S)
     \<and> timestamp_utc S = utcnow_isoformat H
     \<and> pattern S = arg_pattern a
     \<and> total S = length results
     \<and> ok S = length (filter (\<lambda>r. rc r = 0) results)
     \<and> failed S = length (filter (\<lambda>r. rc r \<noteq> 0) results)
     \<and> bands S = results
     \<and> map csv (bands S) = sorted_paths (glob H (cwd H) (arg_pattern a) (files (snd (help_run H a w))))
     \<and> sorted (map path_parts (map csv (bands S)))
     \<and> run_sost_help_detect S
         = \<lparr>input_flag = fst (pick_flags (fst (help_run H a w))),
            outdir_flag = snd (pick_flags (fst (help_run H a w)))\<rparr>"
proof -
  from assms main_code_2[OF assms(1)] have tp: "tool_seen H a w" and ne: "csv_files H a w \<noteq> []"
    by auto
  from main_aggregates[OF tp ne] obtain results failures w3 log v where
    s: "suite_run H a w = Inr (results, failures, w3)"
    and c: "map csv results = csv_files H a w"
    and m: "main H a w = Inr (if failures \<noteq> [] then 1 else 0, v)"
    and sp: "spawned log = help_cmd H # map (fixture_cmd H a w) (csv_files H a w)"
    and w1: "summary_path H a \<notin> fst ` set (written log)"
    and r: "run_log w v = log
          @ [WriteText (summary_path H a)
               (json_dumps H (make_summary H a results (fst (detected H a w)) (snd (detected H a w))))]
          @ (if failures \<noteq> [] then
               [WriteText (failures_path H a) (join_lines failures @ [nl]),
                Print ''Band suite FAILED:'', Print (join_lines failures)]
             else [Print (''Band suite OK: '' @ str_nat (length (filter (\<lambda>r. rc r = 0) results))
                           @ ''/'' @ str_nat (length results))])"
    and f: "files v (summary_path H a) =
          Some (json_dumps H (make_summary H a results (fst (detected H a w)) (snd (detected H a w))))"
    by blast
  let ?S = "make_summary H a results (fst (detected H a w)) (snd (detected H a w))"
  let ?post = "if failures \<noteq> [] then
               [WriteText (failures_path H a) (join_lines failures @ [nl]),
                Print ''Band suite FAILED:'', Print (join_lines failures)]
             else [Print (''Band suite OK: '' @ str_nat (length (filter (\<lambda>r. rc r = 0) results))
                           @ ''/'' @ str_nat (length results))]"
  from m assms(1) have v: "v = w'" by simp
  note ne2 = not_sym[OF summary_not_failures[of H a]]
  have 1: "run_log w w' = log @ [WriteText (summary_path H a) (json_dumps H ?S)] @ ?post"
    using r v by simp
  have 2: "spawned ?post = []" by simp
  have 3: "filter (\<lambda>x. fst x = summary_path H a) (written (run_log w w'))
         = [(summary_path H a, json_dumps H ?S)]"
    using 1 w1 ne2 by (simp add: written_append written_fst_filter)
  have 4: "files w' (summary_path H a) = Some (json_dumps H ?S)" using f v by simp
  have 5: "timestamp_utc ?S = utcnow_isoformat H" by (simp add: make_summary_def)
  have 6: "pattern ?S = arg_pattern a" by (simp add: make_summary_def)
  have 7: "total ?S = length results" by (simp add: make_summary_def)
  have 8: "ok ?S = length (filter (\<lambda>r. rc r = 0) results)" by (simp add: make_summary_def)
  have 9: "failed ?S = length (filter (\<lambda>r. rc r \<noteq> 0) results)" by (simp add: make_summary_def)
  have 10: "bands ?S = results" by (simp add: make_summary_def)
  have 11: "map csv (bands ?S) = sorted_paths (glob H (cwd H) (arg_pattern a) (files (snd (help_run H a w))))"
    using c by (simp add: make_summary_def csv_files_def)
  have 12: "sorted (map path_parts (map csv (bands ?S)))"
    unfolding 11 by (simp add: sorted_paths_def)
  have 13: "run_sost_help_detect ?S
         = \<lparr>input_flag = fst (pick_flags (fst (help_run H a w))),
            outdir_flag = snd (pick_flags (fst (help_run H a w)))\<rparr>"
    by (simp add: make_summary_def detected_def)
  show ?thesis
    by (intro exI[of _ results] exI[of _ failures] exI[of _ w3] exI[of _ ?S]
          exI[of _ log] exI[of _ ?post] conjI)
       (rule s refl 1 sp 2 3 4 5 6 7 8 9 10 11 12 13)+
qed

theorem summary_written_once_after_all_fixtures_witness:
  "\<exists>w'. main demo_host demo_args demo_world = Inr (1, w') \<and> (1::int) \<noteq> 2
     \<and> (\<exists>results failures w3 S pre post.
     suite_run demo_host demo_args demo_world = Inr (results, failures, w3)
     \<and> S = make_summary demo_host demo_args results (fst (detected demo_host demo_args demo_world))
              (snd (detected demo_host demo_args demo_world))
     \<and> run_log demo_world w' = pre @ [WriteText (summary_path demo_host demo_args) (json_dumps demo_host S)] @ post
     \<and> spawned pre = help_cmd demo_host
          # map (fixture_cmd demo_host demo_args demo_world) (csv_files demo_host demo_args demo_world)
     \<and> spawned post = []
     \<and> filter (\<lambda>x. fst x = summary_path demo_host demo_args) (written (run_log demo_world w'))
         = [(summary_path demo_host demo_args, json_dumps demo_host S)]
     \<and> files w' (summary_path demo_host demo_args) = Some (json_dumps demo_host S)
     \<and> timestamp_utc S = ''2024-05-01T12:00:00+00:00''
     \<and> total S = 2
     \<and> map csv (bands S) = [''/repo/test_data/band_high.csv'', ''/repo/test_data/band_low.csv''])"
proof -
  have ne: "csv_files demo_host demo_args demo_world \<noteq> []" by (simp add: demo_csv)
  from failing_run_code obtain w' where m: "main demo_host demo_args demo_world = Inr (1, w')"
    by blast
  have c: "(1::int) \<noteq> 2" by simp
  from summary_written_once_after_all_fixtures[OF m c]
  obtain results failures w3 S pre post where
    s: "suite_run demo_host demo_args demo_world = Inr (results, failures, w3)"
    and d: "S = make_summary demo_host demo_args results (fst (detected demo_host demo_args demo_world))
              (snd (detected demo_host demo_args demo_world))"
    and 1: "run_log demo_world w' = pre @ [WriteText (summary_path demo_host demo_args) (json_dumps demo_host S)] @ post"
    and 2: "spawned pre = help_cmd demo_host
          # map (fixture_cmd demo_host demo_args demo_world) (csv_files demo_host demo_args demo_world)"
    and 3: "spawned post = []"
    and 4: "filter (\<lambda>x. fst x = summary_path demo_host demo_args) (written (run_log demo_world w'))
         = [(summary_path demo_host demo_args, json_dumps demo_host S)]"
    and 5: "files w' (summary_path demo_host demo_args) = Some (json_dumps demo_host S)"
    and 6: "timestamp_utc S = utcnow_isoformat demo_host"
    and 7: "total S = length results"
    and 8: "map csv (bands S) = sorted_paths (glob demo_host (cwd demo_host) (arg_pattern demo_args)
                                   (files (snd (help_run demo_host demo_args demo_world))))"
    and 9: "bands S = results"
    by blast
  have e8: "map csv (bands S) = [''/repo/test_data/band_high.csv'', ''/repo/test_data/band_low.csv'']"
    using 8 demo_csv by (simp only: csv_files_def)
  have e6: "timestamp_utc S = ''2024-05-01T12:00:00+00:00''" using 6 by (simp add: demo_host_def)
  have "length (map csv (bands S)) = 2" unfolding e8 by simp
  then have e7: "total S = 2" using 7 9 by simp
  show ?thesis
    by (intro exI[of _ w'] exI[of _ results] exI[of _ failures] exI[of _ w3] exI[of _ S]
          exI[of _ pre] exI[of _ post] conjI)
       (rule m c s d 1 2 3 4 5 e6 e7 e8)+
qed

section \<open>Configuration errors\<close>

text \<open>
  C3, as the code has it. The driver tests the tool's path after it has made the output
  directory, so the path exists at the test when the tool is there or when the output
  directory is that path or lies below it. When nothing exists at the path, the driver
  writes the note "Missing scripts/run_sost.py" to the failures file, prints it and
  returns 2, and spawns nothing. When the path exists and the pattern matches nothing,
  it writes the note "No CSV matched pattern: ..." to the failures file, prints it and
  returns 2 after it has spawned the tool once, for the help probe, which runs before
  the glob. In both cases no fixture is run and no summary is written. Whenever the
  path exists at the test, the help probe is spawned.
\<close>

theorem configuration_error_exit_2:
  "tool_seen H a w = (tool_present H w \<or> run_sost_path H \<in> set (lineage (out_root H a)))
   \<and> (\<not> tool_seen H a w \<longrightarrow>
      (\<exists>w'. main H a w = Inr (2, w')
         \<and> run_log w w' = [Mkdir (out_root H a),
              WriteText (failures_path H a) (''Missing scripts/run_sost.py'' @ [nl]),
              Print ''Missing scripts/run_sost.py'']
         \<and> files w' = (files (mkdir (out_root H a) w))
              (failures_path H a \<mapsto> ''Missing scripts/run_sost.py'' @ [nl])))
   \<and> (tool_seen H a w \<and> csv_files H a w = [] \<longrightarrow>
      (\<exists>w'. main H a w = Inr (2, w')
         \<and> run_log w w' = [Mkdir (out_root H a), Spawn (help_cmd H),
              WriteText (failures_path H a) (''No CSV matched pattern: '' @ arg_pattern a @ [nl]),
              Print (''No CSV matched pattern: '' @ arg_pattern a)]
         \<and> files w' = (snd (snd (subprocess_run H (help_cmd H) (cwd H) (child_env H)
                                    (files (mkdir (out_root H a) w)))))
              (failures_path H a \<mapsto> ''No CSV matched pattern: '' @ arg_pattern a @ [nl])))
   \<and> (tool_seen H a w \<longrightarrow>
      (\<exists>code w'. main H a w = Inr (code, w')
         \<and> spawned (run_log w w') = help_cmd H # map (fixture_cmd H a w) (csv_files H a w)))"
  using tool_seen_iff[of H a w] main_missing_run[of H a w] main_no_csv_run[of H a w]
    main_spawns[of H a w]
  by blast

theorem configuration_error_exit_2_witness:
  "\<not> tool_seen demo_host demo_args bare_world
   \<and> (\<exists>w'. main demo_host demo_args bare_world = Inr (2, w')
         \<and> run_log bare_world w' = [Mkdir ''/repo/_ci_out'',
              WriteText ''/repo/_ci_out/band_suite_failures.txt'' (''Missing scripts/run_sost.py'' @ [nl]),
              Print ''Missing scripts/run_sost.py''])
   \<and> tool_seen empty_host demo_args demo_world
   \<and> csv_files empty_host demo_args demo_world = []
   \<and> (\<exists>w'. main empty_host demo_args demo_world = Inr (2, w')
         \<and> run_log demo_world w' = [Mkdir ''/repo/_ci_out'',
              Spawn [''python'', ''/repo/scripts/run_sost.py'', ''--help''],
              WriteText ''/repo/_ci_out/band_suite_failures.txt''
                (''No CSV matched pattern: test_data/band_*.csv'' @ [nl]),
              Print ''No CSV matched pattern: test_data/band_*.csv''])
   \<and> \<not> tool_present demo_host bare_world
   \<and> tool_seen demo_host tool_dir_args bare_world
   \<and> (\<exists>code w'. main demo_host tool_dir_args bare_world = Inr (code, w')
         \<and> spawned (run_log bare_world w')
             = [''python'', ''/repo/scripts/run_sost.py'', ''--help'']
               # map (fixture_cmd demo_host tool_dir_args bare_world)
                     (csv_files demo_host tool_dir_args bare_world))"
proof -
  from configuration_error_exit_2[of demo_host demo_args bare_world] bare_unseen
  have 1: "\<exists>w'. main demo_host demo_args bare_world = Inr (2, w')
         \<and> run_log bare_world w' = [Mkdir ''/repo/_ci_out'',
              WriteText ''/repo/_ci_out/band_suite_failures.txt'' (''Missing scripts/run_sost.py'' @ [nl]),
              Print ''Missing scripts/run_sost.py'']"
    by (auto simp: demo_out_root demo_failures_path)
  have es: "tool_seen empty_host demo_args demo_world" by (rule tool_present_seen[OF empty_tool])
  from configuration_error_exit_2[of empty_host demo_args demo_world] es empty_csv
  have 2: "\<exists>w'. main empty_host demo_args demo_world = Inr (2, w')
         \<and> run_log demo_world w' = [Mkdir ''/repo/_ci_out'',
              Spawn [''python'', ''/repo/scripts/run_sost.py'', ''--help''],
              WriteText ''/repo/_ci_out/band_suite_failures.txt''
                (''No CSV matched pattern: test_data/band_*.csv'' @ [nl]),
              Print ''No CSV matched pattern: test_data/band_*.csv'']"
    by (auto simp: empty_paths demo_pattern)
  from configuration_error_exit_2[of demo_host tool_dir_args bare_world] bare_seen
  have 3: "\<exists>code w'. main demo_host tool_dir_args bare_world = Inr (code, w')
         \<and> spawned (run_log bare_world w')
             = [''python'', ''/repo/scripts/run_sost.py'', ''--help'']
               # map (fixture_cmd demo_host tool_dir_args bare_world)
                     (csv_files demo_host tool_dir_args bare_world)"
    by (simp add: demo_help_cmd)
  from bare_unseen 1 es empty_csv 2 bare_tool bare_seen 3 show ?thesis by (intro conjI)
qed

theorem help_probe_runs_before_glob_counterexample:
  "tool_present empty_host demo_world
   \<and> csv_files empty_host demo_args demo_world = []
   \<and> (\<exists>w'. main empty_host demo_args demo_world = Inr (2, w')
         \<and> spawned (run_log demo_world w') = [[''python'', ''/repo/scripts/run_sost.py'', ''--help'']]
         \<and> spawned (run_log demo_world w') \<noteq> [])"
proof -
  from main_no_csv_run[OF tool_present_seen[OF empty_tool] empty_csv]
  have "\<exists>w'. main empty_host demo_args demo_world = Inr (2, w')
         \<and> spawned (run_log demo_world w') = [[''python'', ''/repo/scripts/run_sost.py'', ''--help'']]
         \<and> spawned (run_log demo_world w') \<noteq> []"
    by (auto simp: empty_paths)
  with empty_tool empty_csv show ?thesis by (intro conjI)
qed

section \<open>Reports\<close>

text \<open>
  C5. Every band record of a run comes from one turn of the loop, and in the world right
  after that turn (the files the tool left, and the log file) the keys of its report
  mapping are exactly those of \<^verbatim>\<open>dd_report.json\<close>, \<^verbatim>\<open>ddr_report.json\<close>,
  \<^verbatim>\<open>e_report.json\<close> that exist in the band's output directory, in this order. Each
  entry holds the path of that file and the SHA-256 digest of its bytes, which is what
  hashing the file again in that world returns. A name that does not exist is left out
  and changes nothing else: the \<open>rc\<close> of the record is the return code of the child.
\<close>

theorem reports_hash_existing_files:
  assumes "suite_run H a w = Inr (results, failures, w3)" and "r \<in> set results"
  shows "\<exists>v v'. suite_step H a w (csv r) v = Inr (r, v')
     \<and> files v' = (snd (snd (subprocess_run H (fixture_cmd H a w (csv r)) (cwd H) (child_env H) (files v))))
                (log_file r \<mapsto> fst (snd (subprocess_run H (fixture_cmd H a w (csv r)) (cwd H) (child_env H) (files v))))
     \<and> outdir r = band_out_dir H a (csv r)
     \<and> log_file r = band_log_file H a (csv r)
     \<and> map fst (reports r)
         = filter (\<lambda>n. exists v' (joinpath (outdir r) n))
             [''dd_report.json'', ''ddr_report.json'', ''e_report.json'']
     \<and> (\<forall>(n, e) \<in> set (reports r).
           path e = joinpath (outdir r) n
           \<and> (\<exists>bytes. files v' (path e) = Some bytes \<and> sha256 e = sha256_hexdigest H bytes)
           \<and> sha256_file H v' (path e) = Inr (sha256 e))
     \<and> rc r = fst (subprocess_run H (fixture_cmd H a w (csv r)) (cwd H) (child_env H) (files v))"
proof -
  from suite_rc[OF assms] obtain v v' where
    e: "suite_step H a w (csv r) v = Inr (r, v')"
    and o: "outdir r = band_out_dir H a (csv r)"
    and l: "log_file r = band_log_file H a (csv r)"
    and k: "rc r = fst (subprocess_run H (fixture_cmd H a w (csv r)) (cwd H) (child_env H) (files v))"
    and f: "files v' = (snd (snd (subprocess_run H (fixture_cmd H a w (csv r)) (cwd H) (child_env H) (files v))))
                (log_file r \<mapsto> fst (snd (subprocess_run H (fixture_cmd H a w (csv r)) (cwd H) (child_env H) (files v))))"
    by blast
  note rr = run_band_reports[OF e[unfolded suite_step_def]]
  have 1: "map fst (reports r)
         = filter (\<lambda>n. exists v' (joinpath (outdir r) n))
             [''dd_report.json'', ''ddr_report.json'', ''e_report.json'']"
    using rr(1) by (simp only: report_names_def)
  have 2: "\<forall>(n, e) \<in> set (reports r).
           path e = joinpath (outdir r) n
           \<and> (\<exists>bytes. files v' (path e) = Some bytes \<and> sha256 e = sha256_hexdigest H bytes)
           \<and> sha256_file H v' (path e) = Inr (sha256 e)"
    using rr(2) by (auto simp: sha256_file_def split: option.splits)
  show ?thesis
    by (intro exI[of _ v] exI[of _ v'] conjI) (rule e f o l 1 2 k)+
qed

theorem reports_hash_existing_files_witness:
  "\<exists>results failures w3 r e.
     suite_run demo_host demo_args demo_world = Inr (results, failures, w3)
     \<and> r \<in> set results
     \<and> csv r = ''/repo/test_data/band_low.csv''
     \<and> (''dd_report.json'', e) \<in> set (reports r)
     \<and> path e = ''/repo/_ci_out/sost_out_band_low/dd_report.json''
     \<and> sha256 e = ''sha256 of {}''"
proof -
  from suite_run_facts[of demo_host demo_args demo_world] obtain results failures w3 where
    s: "suite_run demo_host demo_args demo_world = Inr (results, failures, w3)"
    and c: "map csv results = csv_files demo_host demo_args demo_world"
    by blast
  from c have "map csv results = [''/repo/test_data/band_high.csv'', ''/repo/test_data/band_low.csv'']"
    by (simp only: demo_csv)
  then obtain q r where rs: "results = [q, r]" and rcsv: "csv r = ''/repo/test_data/band_low.csv''"
    by (cases results; cases "tl results") auto
  from rs have rin: "r \<in> set results" by simp
  from reports_hash_existing_files[OF s rin] show ?thesis
  proof (elim exE conjE)
    fix v v' :: world
    assume f: "files v' = (snd (snd (subprocess_run demo_host (fixture_cmd demo_host demo_args demo_world (csv r))
                         (cwd demo_host) (child_env demo_host) (files v))))
                (log_file r \<mapsto> fst (snd (subprocess_run demo_host (fixture_cmd demo_host demo_args demo_world (csv r))
                         (cwd demo_host) (child_env demo_host) (files v))))"
    assume o: "outdir r = band_out_dir demo_host demo_args (csv r)"
    assume l: "log_file r = band_log_file demo_host demo_args (csv r)"
    assume n: "map fst (reports r)
         = filter (\<lambda>n. exists v' (joinpath (outdir r) n))
             [''dd_report.json'', ''ddr_report.json'', ''e_report.json'']"
    assume h: "\<forall>(n, e) \<in> set (reports r).
           path e = joinpath (outdir r) n
           \<and> (\<exists>bytes. files v' (path e) = Some bytes \<and> sha256 e = sha256_hexdigest demo_host bytes)
           \<and> sha256_file demo_host v' (path e) = Inr (sha256 e)"
  have o2: "outdir r = ''/repo/_ci_out/sost_out_band_low''"
    unfolding o rcsv
    by (simp add: band_out_dir_def out_root_def demo_host_def demo_args_def joinpath_def
          stem_def path_name_def Let_def)
  have l2: "log_file r = ''/repo/_ci_out/band_low.log''"
    unfolding l rcsv
    by (simp add: band_log_file_def out_root_def demo_host_def demo_args_def joinpath_def
          stem_def path_name_def Let_def)
  have "files v' = (snd (snd (subprocess_run demo_host
           [''python'', ''/repo/scripts/run_sost.py'', ''--input-csv'',
            ''/repo/test_data/band_low.csv'', ''--outdir'', ''/repo/_ci_out/sost_out_band_low'']
           (cwd demo_host) (child_env demo_host) (files v))))
       (''/repo/_ci_out/band_low.log'' \<mapsto> fst (snd (subprocess_run demo_host
           [''python'', ''/repo/scripts/run_sost.py'', ''--input-csv'',
            ''/repo/test_data/band_low.csv'', ''--outdir'', ''/repo/_ci_out/sost_out_band_low'']
           (cwd demo_host) (child_env demo_host) (files v))))"
    using f by (simp only: rcsv demo_cmd_low l2)
  then have dd: "files v' ''/repo/_ci_out/sost_out_band_low/dd_report.json'' = Some ''{}''"
    by (simp add: demo_host_def)
  then have "exists v' (joinpath (outdir r) ''dd_report.json'')"
    by (simp add: o2 exists_def joinpath_def)
  with n have "''dd_report.json'' \<in> set (map fst (reports r))" by simp
  then obtain e where e: "(''dd_report.json'', e) \<in> set (reports r)" by auto
  with h have p: "path e = joinpath (outdir r) ''dd_report.json''"
    and b: "\<exists>bytes. files v' (path e) = Some bytes \<and> sha256 e = sha256_hexdigest demo_host bytes"
    by auto
  from p have p2: "path e = ''/repo/_ci_out/sost_out_band_low/dd_report.json''"
    by (simp add: o2 joinpath_def)
  from b dd have d2: "sha256 e = ''sha256 of {}''"
    by (auto simp: p2 demo_host_def)
  show ?thesis
    by (intro exI[of _ results] exI[of _ failures] exI[of _ w3] exI[of _ r] exI[of _ e] conjI)
       (rule s rin rcsv e p2 d2)+
  qed
qed

section \<open>Artifacts\<close>

text \<open>
  C7, as the code has it. Every run returns 0, 1 or 2. The driver writes the failures
  file only in a run that returns 1 or 2, exactly once, and the file then holds what this
  run wrote, whatever it held before; it writes the summary file only in a run that
  returns 0 or 1, exactly once, and not in a run that returns 2. A run that returns 0
  neither writes nor deletes the failures file: if the tool does not touch it either, the
  file is after the run what it was before, so a failures file left by an earlier run
  stays.
\<close>

theorem failures_file_written_only_on_failure:
  "\<exists>code w'. main H a w = Inr (code, w')
     \<and> (code = 0 \<or> code = 1 \<or> code = 2)
     \<and> (code = 0 \<longrightarrow> failures_path H a \<notin> fst ` set (written (run_log w w')))
     \<and> (code \<noteq> 0 \<longrightarrow>
           (\<exists>s. filter (\<lambda>x. fst x = failures_path H a) (written (run_log w w')) = [(failures_path H a, s)]
              \<and> files w' (failures_path H a) = Some s))
     \<and> (code \<noteq> 2 \<longrightarrow>
           (\<exists>s. filter (\<lambda>x. fst x = summary_path H a) (written (run_log w w')) = [(summary_path H a, s)]
              \<and> files w' (summary_path H a) = Some s))
     \<and> (code = 2 \<longrightarrow> summary_path H a \<notin> fst ` set (written (run_log w w')))
     \<and> (code = 0 \<and> (\<forall>cmd d e fs. snd (snd (subprocess_run H cmd d e fs)) (failures_path H a) = fs (failures_path H a))
          \<longrightarrow> files w' (failures_path H a) = files w (failures_path H a))"
  by (rule artifact_writes)

theorem failures_file_written_only_on_failure_witness:
  "(\<forall>cmd d e fs. snd (snd (subprocess_run passing_host cmd d e fs)) (failures_path passing_host demo_args)
      = fs (failures_path passing_host demo_args))
   \<and> (\<exists>w'. main passing_host demo_args stale_world = Inr (0, w')
         \<and> failures_path passing_host demo_args \<notin> fst ` set (written (run_log stale_world w'))
         \<and> (\<exists>s. filter (\<lambda>x. fst x = summary_path passing_host demo_args) (written (run_log stale_world w'))
                    = [(summary_path passing_host demo_args, s)]
                \<and> files w' (summary_path passing_host demo_args) = Some s)
         \<and> files w' (failures_path passing_host demo_args)
             = files stale_world (failures_path passing_host demo_args))"
proof -
  from failures_file_written_only_on_failure[of passing_host demo_args stale_world]
  obtain code w' where
    m: "main passing_host demo_args stale_world = Inr (code, w')"
    and 1: "code = 0 \<longrightarrow> failures_path passing_host demo_args \<notin> fst ` set (written (run_log stale_world w'))"
    and 2: "code \<noteq> 2 \<longrightarrow>
           (\<exists>s. filter (\<lambda>x. fst x = summary_path passing_host demo_args) (written (run_log stale_world w'))
                    = [(summary_path passing_host demo_args, s)]
              \<and> files w' (summary_path passing_host demo_args) = Some s)"
    and 3: "code = 0 \<and> (\<forall>cmd d e fs. snd (snd (subprocess_run passing_host cmd d e fs)) (failures_path passing_host demo_args)
              = fs (failures_path passing_host demo_args))
          \<longrightarrow> files w' (failures_path passing_host demo_args) = files stale_world (failures_path passing_host demo_args)"
    by blast
  from m passing_code have c: "code = 0" by auto
  from m c have m0: "main passing_host demo_args stale_world = Inr (0, w')" by simp
  from 1 c have a1: "failures_path passing_host demo_args \<notin> fst ` set (written (run_log stale_world w'))"
    by simp
  from 2 c have a2: "\<exists>s. filter (\<lambda>x. fst x = summary_path passing_host demo_args) (written (run_log stale_world w'))
                    = [(summary_path passing_host demo_args, s)]
              \<and> files w' (summary_path passing_host demo_args) = Some s"
    by simp
  from 3 c passing_frame have a3: "files w' (failures_path passing_host demo_args)
             = files stale_world (failures_path passing_host demo_args)"
    by blast
  show ?thesis
    by (intro conjI exI[of _ w']) (rule passing_frame m0 a1 a2 a3)+
qed

theorem stale_failures_file_counterexample:
  "\<exists>w'. main passing_host demo_args stale_world = Inr (0, w')
     \<and> files w' ''/repo/_ci_out/band_suite_failures.txt''
         = Some ''band_low rc=1 csv=/repo/test_data/band_low.csv''
     \<and> (''/repo/_ci_out/band_suite_failures.txt'', ''band_low rc=1 csv=/repo/test_data/band_low.csv'')
         \<notin> set (written (run_log stale_world w'))"
proof -
  from artifact_writes[of passing_host demo_args stale_world]
  obtain code w' where
    m: "main passing_host demo_args stale_world = Inr (code, w')"
    and 1: "code = 0 \<longrightarrow> failures_path passing_host demo_args \<notin> fst ` set (written (run_log stale_world w'))"
    and 3: "code = 0 \<and> (\<forall>cmd d e fs. snd (snd (subprocess_run passing_host cmd d e fs)) (failures_path passing_host demo_args)
              = fs (failures_path passing_host demo_args))
          \<longrightarrow> files w' (failures_path passing_host demo_args) = files stale_world (failures_path passing_host demo_args)"
    by blast
  from m passing_code have c: "code = 0" by auto
  from m c have m0: "main passing_host demo_args stale_world = Inr (0, w')" by simp
  from 3 c passing_frame have "files w' (failures_path passing_host demo_args)
             = files stale_world (failures_path passing_host demo_args)"
    by blast
  then have a: "files w' ''/repo/_ci_out/band_suite_failures.txt''
         = Some ''band_low rc=1 csv=/repo/test_data/band_low.csv''"
    unfolding passing_failures_path by (simp add: stale_world_def)
  from 1 c have "''/repo/_ci_out/band_suite_failures.txt'' \<notin> fst ` set (written (run_log stale_world w'))"
    unfolding passing_failures_path by simp
  then have b: "(''/repo/_ci_out/band_suite_failures.txt'', ''band_low rc=1 csv=/repo/test_data/band_low.csv'')
         \<notin> set (written (run_log stale_world w'))"
    by force
  show ?thesis
    by (intro conjI exI[of _ w']) (rule m0 a b)+
qed

section \<open>The help probe\<close>

text \<open>
  C10. The help text and the world after the probe are the output and the files of the
  child process, which finds the files as they are once the output directory is made;
  its return code is not used. So in every run with the tool present the driver goes on,
  whatever that code is: it spawns the help probe and then every matched fixture, and it
  returns 2 only when no fixture matched. When the captured output is empty, no flag is
  detected and every fixture is spawned with the interpreter, the tool and its path, and
  nothing else.
\<close>

theorem help_exit_code_ignored:
  assumes "tool_present H w"
  shows "help_run H a w =
       (fst (snd (subprocess_run H (help_cmd H) (cwd H) (child_env H)
           (files (mkdir (out_root H a) w)))),
        \<lparr>files = snd (snd (subprocess_run H (help_cmd H) (cwd H) (child_env H)
           (files (mkdir (out_root H a) w)))),
         events = events w @ [Mkdir (out_root H a), Spawn (help_cmd H)]\<rparr>)
     \<and> (\<exists>code w'. main H a w = Inr (code, w')
           \<and> spawned (run_log w w') = help_cmd H # map (fixture_cmd H a w) (csv_files H a w)
           \<and> (code = 2) = (csv_files H a w = []))
     \<and> (fst (snd (subprocess_run H (help_cmd H) (cwd H) (child_env H)
           (files (mkdir (out_root H a) w)))) = [] \<longrightarrow>
           detected H a w = (None, None)
           \<and> (\<exists>code w'. main H a w = Inr (code, w')
                 \<and> spawned (run_log w w')
                     = help_cmd H # map (\<lambda>csv_path. [executable H, run_sost_path H, csv_path])
                                      (csv_files H a w)))"
proof (intro conjI impI)
  show "help_run H a w =
       (fst (snd (subprocess_run H (help_cmd H) (cwd H) (child_env H)
           (files (mkdir (out_root H a) w)))),
        \<lparr>files = snd (snd (subprocess_run H (help_cmd H) (cwd H) (child_env H)
           (files (mkdir (out_root H a) w)))),
         events = events w @ [Mkdir (out_root H a), Spawn (help_cmd H)]\<rparr>)"
    by (rule help_run_eq)
next
  from main_spawns[OF tool_present_seen[OF assms, of a]] obtain code w' where
    m: "main H a w = Inr (code, w')"
    and s: "spawned (run_log w w') = help_cmd H # map (fixture_cmd H a w) (csv_files H a w)"
    by blast
  from main_code_2[OF m] tool_present_seen[OF assms, of a] have "(code = 2) = (csv_files H a w = [])" by simp
  with m s show "\<exists>code w'. main H a w = Inr (code, w')
           \<and> spawned (run_log w w') = help_cmd H # map (fixture_cmd H a w) (csv_files H a w)
           \<and> (code = 2) = (csv_files H a w = [])"
    by blast
next
  assume e: "fst (snd (subprocess_run H (help_cmd H) (cwd H) (child_env H)
           (files (mkdir (out_root H a) w)))) = []"
  then have h: "fst (help_run H a w) = []" by (simp add: help_run_eq)
  then show d: "detected H a w = (None, None)"
    by (simp add: detected_def pick_flags_def input_candidates_def outdir_candidates_def)
  then have "fixture_cmd H a w = (\<lambda>csv_path. [executable H, run_sost_path H, csv_path])"
    by (simp add: fixture_cmd_def band_cmd_def fun_eq_iff)
  with main_spawns[OF tool_present_seen[OF assms, of a]]
  show "\<exists>code w'. main H a w = Inr (code, w')
                 \<and> spawned (run_log w w')
                     = help_cmd H # map (\<lambda>csv_path. [executable H, run_sost_path H, csv_path])
                                      (csv_files H a w)"
    by simp
qed

theorem help_exit_code_ignored_witness:
  "tool_present silent_host demo_world
   \<and> fst (subprocess_run silent_host (help_cmd silent_host) (cwd silent_host) (child_env silent_host)
            (files (mkdir (out_root silent_host demo_args) demo_world))) = 1
   \<and> fst (snd (subprocess_run silent_host (help_cmd silent_host) (cwd silent_host)
                 (child_env silent_host) (files (mkdir (out_root silent_host demo_args) demo_world)))) = []
   \<and> detected silent_host demo_args demo_world = (None, None)
   \<and> (\<exists>code w'. main silent_host demo_args demo_world = Inr (code, w')
         \<and> code \<noteq> 2
         \<and> spawned (run_log demo_world w')
             = [[''python'', ''/repo/scripts/run_sost.py'', ''--help''],
                [''python'', ''/repo/scripts/run_sost.py'', ''/repo/test_data/band_high.csv''],
                [''python'', ''/repo/scripts/run_sost.py'', ''/repo/test_data/band_low.csv'']])"
proof -
  have p1: "fst (subprocess_run silent_host (help_cmd silent_host) (cwd silent_host)
                  (child_env silent_host) (files (mkdir (out_root silent_host demo_args) demo_world))) = 1"
    by (simp add: silent_probe)
  have p2: "fst (snd (subprocess_run silent_host (help_cmd silent_host) (cwd silent_host)
                 (child_env silent_host) (files (mkdir (out_root silent_host demo_args) demo_world)))) = []"
    by (simp add: silent_probe)
  note t = help_exit_code_ignored[OF silent_tool, of demo_args]
  from t p2 have d: "detected silent_host demo_args demo_world = (None, None)" by blast
  from t obtain code w' where
    m: "main silent_host demo_args demo_world = Inr (code, w')"
    and s: "spawned (run_log demo_world w') = help_cmd silent_host
              # map (fixture_cmd silent_host demo_args demo_world) (csv_files silent_host demo_args demo_world)"
    and c: "(code = 2) = (csv_files silent_host demo_args demo_world = [])"
    by blast
  have fc: "fixture_cmd silent_host demo_args demo_world
              = (\<lambda>csv_path. [executable silent_host, run_sost_path silent_host, csv_path])"
    using d by (simp add: fixture_cmd_def band_cmd_def fun_eq_iff)
  have c2: "code \<noteq> 2" using c by (simp add: silent_csv)
  have s2: "spawned (run_log demo_world w')
             = [[''python'', ''/repo/scripts/run_sost.py'', ''--help''],
                [''python'', ''/repo/scripts/run_sost.py'', ''/repo/test_data/band_high.csv''],
                [''python'', ''/repo/scripts/run_sost.py'', ''/repo/test_data/band_low.csv'']]"
    using s unfolding fc silent_csv silent_help_cmd
    by (simp add: run_sost_path_def silent_host_def demo_host_def joinpath_def)
  from m c2 s2 have "\<exists>code w'. main silent_host demo_args demo_world = Inr (code, w')
         \<and> code \<noteq> 2
         \<and> spawned (run_log demo_world w')
             = [[''python'', ''/repo/scripts/run_sost.py'', ''--help''],
                [''python'', ''/repo/scripts/run_sost.py'', ''/repo/test_data/band_high.csv''],
                [''python'', ''/repo/scripts/run_sost.py'', ''/repo/test_data/band_low.csv'']]"
    by blast
  with silent_tool p1 p2 d show ?thesis by (intro conjI)
qed

section \<open>Flag detection\<close>

text \<open>
  C4. For every help text, flag detection selects the first candidate, in the order
  \<^verbatim>\<open>--input-csv\<close>, \<^verbatim>\<open>--input_csv\<close>, \<^verbatim>\<open>--input\<close>, \<^verbatim>\<open>-i\<close> for the input and
  \<^verbatim>\<open>--outdir\<close>, \<^verbatim>\<open>--out-dir\<close>, \<^verbatim>\<open>--output-dir\<close>, \<^verbatim>\<open>-o\<close> for the output directory,
  that occurs in the text. A text that contains \<^verbatim>\<open>--input-csv\<close> yields exactly that
  flag. A text that contains none of the eight yields no flag at all, the command of a
  fixture is then the interpreter, the tool and the fixture path, and a run of \<open>main\<close>
  whose help text is such a text spawns, after the help probe, exactly these commands.
\<close>

theorem pick_flags_preference_order:
  "fst (pick_flags h) =
     (if str_contains ''--input-csv'' h then Some ''--input-csv''
      else if str_contains ''--input_csv'' h then Some ''--input_csv''
      else if str_contains ''--input'' h then Some ''--input''
      else if str_contains ''-i'' h then Some ''-i'' else None)
   \<and> snd (pick_flags h) =
     (if str_contains ''--outdir'' h then Some ''--outdir''
      else if str_contains ''--out-dir'' h then Some ''--out-dir''
      else if str_contains ''--output-dir'' h then Some ''--output-dir''
      else if str_contains ''-o'' h then Some ''-o'' else None)
   \<and> (\<forall>pre post. fst (pick_flags (pre @ ''--input-csv'' @ post)) = Some ''--input-csv'')
   \<and> ((\<forall>c \<in> set (input_candidates @ outdir_candidates). \<not> str_contains c h) \<longrightarrow>
        pick_flags h = (None, None)
        \<and> band_cmd H script (fst (pick_flags h)) (snd (pick_flags h)) csv_path band_out
            = [executable H, script, csv_path])
   \<and> (tool_present H w
        \<and> (\<forall>c \<in> set (input_candidates @ outdir_candidates). \<not> str_contains c (fst (help_run H a w)))
      \<longrightarrow> (\<exists>code w'. main H a w = Inr (code, w')
             \<and> spawned (run_log w w')
                 = help_cmd H # map (\<lambda>csv_path. [executable H, run_sost_path H, csv_path]) (csv_files H a w)))"
proof (intro conjI allI impI)
  show "fst (pick_flags h) =
     (if str_contains ''--input-csv'' h then Some ''--input-csv''
      else if str_contains ''--input_csv'' h then Some ''--input_csv''
      else if str_contains ''--input'' h then Some ''--input''
      else if str_contains ''-i'' h then Some ''-i'' else None)"
    by (simp add: pick_flags_def input_candidates_def)
next
  show "snd (pick_flags h) =
     (if str_contains ''--outdir'' h then Some ''--outdir''
      else if str_contains ''--out-dir'' h then Some ''--out-dir''
      else if str_contains ''--output-dir'' h then Some ''--output-dir''
      else if str_contains ''-o'' h then Some ''-o'' else None)"
    by (simp add: pick_flags_def outdir_candidates_def)
next
  fix pre post :: string
  have "str_contains ''--input-csv'' (pre @ ''--input-csv'' @ post)"
    unfolding str_contains_iff by blast
  then show "fst (pick_flags (pre @ ''--input-csv'' @ post)) = Some ''--input-csv''"
    by (simp add: pick_flags_def input_candidates_def)
next
  assume "\<forall>c \<in> set (input_candidates @ outdir_candidates). \<not> str_contains c h"
  then show "pick_flags h = (None, None)"
    by (simp add: pick_flags_def input_candidates_def outdir_candidates_def)
  then show "band_cmd H script (fst (pick_flags h)) (snd (pick_flags h)) csv_path band_out
            = [executable H, script, csv_path]"
    by (simp add: band_cmd_def)
next
  assume a: "tool_present H w
        \<and> (\<forall>c \<in> set (input_candidates @ outdir_candidates). \<not> str_contains c (fst (help_run H a w)))"
  then have "detected H a w = (None, None)"
    by (simp add: detected_def pick_flags_def input_candidates_def outdir_candidates_def)
  then have "fixture_cmd H a w = (\<lambda>csv_path. [executable H, run_sost_path H, csv_path])"
    by (simp add: fixture_cmd_def band_cmd_def fun_eq_iff)
  with main_spawns[of H a w] tool_present_seen[of H w a] a
  show "\<exists>code w'. main H a w = Inr (code, w')
             \<and> spawned (run_log w w')
                 = help_cmd H # map (\<lambda>csv_path. [executable H, run_sost_path H, csv_path]) (csv_files H a w)"
    by simp
qed

theorem pick_flags_preference_order_witness:
  "tool_present silent_host demo_world
   \<and> fst (help_run silent_host demo_args demo_world) = []
   \<and> pick_flags [] = (None, None)
   \<and> (\<exists>code w'. main silent_host demo_args demo_world = Inr (code, w')
         \<and> spawned (run_log demo_world w')
             = [[''python'', ''/repo/scripts/run_sost.py'', ''--help''],
                [''python'', ''/repo/scripts/run_sost.py'', ''/repo/test_data/band_high.csv''],
                [''python'', ''/repo/scripts/run_sost.py'', ''/repo/test_data/band_low.csv'']])"
proof -
  have n: "\<forall>c \<in> set (input_candidates @ outdir_candidates). \<not> str_contains c []"
    by (simp add: input_candidates_def outdir_candidates_def)
  have s: "sorted_paths [''/repo/test_data/band_low.csv'', ''/repo/test_data/band_high.csv'']
             = [''/repo/test_data/band_high.csv'', ''/repo/test_data/band_low.csv'']"
    by code_simp
  have c: "csv_files silent_host demo_args demo_world
             = [''/repo/test_data/band_high.csv'', ''/repo/test_data/band_low.csv'']"
    using s by (simp add: csv_files_def silent_host_def demo_host_def)
  from pick_flags_preference_order[of "[]" silent_host "run_sost_path silent_host" "[]" "[]" demo_world demo_args]
       n silent_tool silent_help c
  show ?thesis
    by (simp add: help_cmd_def run_sost_path_def silent_host_def demo_host_def joinpath_def)
qed

text \<open>
  C9. An alias is matched as a substring, anywhere in the help text and without regard
  to word boundaries: every text in which the two characters \<^verbatim>\<open>-i\<close> occur yields an
  input flag, every text in which \<^verbatim>\<open>--input\<close> occurs yields one of the three long
  aliases, the text \<^verbatim>\<open>--inputs\<close> yields \<^verbatim>\<open>--input\<close>, and a usage line whose only
  option is \<^verbatim>\<open>--ignore\<close> yields \<^verbatim>\<open>-i\<close>.
\<close>

theorem pick_flags_matches_substrings:
  "(\<forall>pre post. fst (pick_flags (pre @ ''-i'' @ post)) \<noteq> None)
   \<and> (\<forall>pre post. fst (pick_flags (pre @ ''--input'' @ post)) \<in> {Some ''--input-csv'', Some ''--input_csv'', Some ''--input''})
   \<and> pick_flags ''--inputs'' = (Some ''--input'', None)
   \<and> pick_flags ''usage: run_sost.py [--ignore] FILE'' = (Some ''-i'', None)"
proof (intro conjI allI)
  fix pre post :: string
  have "str_contains ''-i'' (pre @ ''-i'' @ post)"
    unfolding str_contains_iff by blast
  then show "fst (pick_flags (pre @ ''-i'' @ post)) \<noteq> None"
    by (simp add: pick_flags_def input_candidates_def)
next
  fix pre post :: string
  have "str_contains ''--input'' (pre @ ''--input'' @ post)"
    unfolding str_contains_iff by blast
  then show "fst (pick_flags (pre @ ''--input'' @ post)) \<in> {Some ''--input-csv'', Some ''--input_csv'', Some ''--input''}"
    by (simp add: pick_flags_def input_candidates_def)
next
  show "pick_flags ''--inputs'' = (Some ''--input'', None)"
    by (simp add: pick_flags_def input_candidates_def outdir_candidates_def)
next
  show "pick_flags ''usage: run_sost.py [--ignore] FILE'' = (Some ''-i'', None)"
    by (simp add: pick_flags_def input_candidates_def outdir_candidates_def)
qed

section \<open>The smoke test passes exactly for a non-empty version string\<close>

text \<open>
  C8. The smoke test passes if and only if the import succeeds and the module has an
  attribute \<^verbatim>\<open>__version__\<close> that is a string and is not empty. So it fails when the
  import raises, when the attribute is missing, when it is not a string and when it is
  the empty string, and it passes for \<^verbatim>\<open>"1.0.0"\<close>.
\<close>

theorem smoke_test_passes_iff:
  "(test_import_sost_and_version imported = Passed) =
     (\<exists>sost s. imported = Some sost \<and> sost ''__version__'' = Some (PyStr s) \<and> s \<noteq> [])"
  by (auto simp: test_import_sost_and_version_def isinstance_str_def truthy_def
           split: option.splits pyval.splits)

theorem smoke_test_passes_iff_witness:
  "test_import_sost_and_version (Some [''__version__'' \<mapsto> PyStr ''1.0.0'']) = Passed
   \<and> test_import_sost_and_version (Some [''__version__'' \<mapsto> PyStr '''']) \<noteq> Passed
   \<and> test_import_sost_and_version (Some [''__version__'' \<mapsto> PyInt 1]) \<noteq> Passed
   \<and> test_import_sost_and_version (Some Map.empty) \<noteq> Passed
   \<and> test_import_sost_and_version None \<noteq> Passed"
  using smoke_test_passes_iff[of "Some [''__version__'' \<mapsto> PyStr ''1.0.0'']"]
        smoke_test_passes_iff[of "Some [''__version__'' \<mapsto> PyStr '''']"]
        smoke_test_passes_iff[of "Some [''__version__'' \<mapsto> PyInt 1]"]
        smoke_test_passes_iff[of "Some Map.empty"]
        smoke_test_passes_iff[of None]
  by simp

end
